theory Spec2Isabelle
  imports Complex_Main "HOL-Library.Sublist" "HOL-Library.Char_ord" "HOL-Library.List_Lexorder"
begin

section \<open>Prefabricated house estimator: the model of app.py\<close>

text \<open>
  The estimation engine of \<^verbatim>\<open>app.py\<close>: the catalog lookup
  \<^verbatim>\<open>VeritabaniYoneticisi.malzeme_bilgisi_getir\<close>, the geometry resolver
  \<^verbatim>\<open>EvHesaplayici._alan_hesapla\<close> and the estimator
  \<^verbatim>\<open>EvHesaplayici.malzeme_ihtiyacini_hesapla\<close>.

  Conventions of the embedding.
  \<^item> Python floats are real numbers: rounding is not modelled, so every formula is the
    exact one. Python ints are \<open>int\<close>.
  \<^item> Python strings are byte lists in UTF-8; the Turkish letters of the source's literals
    are written as their bytes. Substring tests (\<^verbatim>\<open>in\<close>) agree on code points
    and on UTF-8 bytes, and are \<open>sublist\<close>.
  \<^item> The database is the content of its four tables, rows in insertion order; the
    connection is taken to be open. Nullable numeric columns are taken to be filled.
  \<^item> \<^verbatim>\<open>str.lower\<close> and the formatting of a float inside an f-string belong to the
    Python runtime; the model takes them as the parameters \<open>lower\<close> and
    \<open>str_float\<close>.
  \<^item> An exception is a value \<open>Inl e\<close> of the result type.
\<close>

subsection \<open>String literals of the source\<close>

definition Duz :: string where
  "Duz = ''D'' @ [CHR 0xC3, CHR 0xBC] @ ''z''"

definition Duvar_Paneli :: string where
  "Duvar_Paneli = ''Duvar Paneli''"

definition Cati_Paneli :: string where
  "Cati_Paneli = [CHR 0xC3, CHR 0x87] @ ''at'' @ [CHR 0xC4, CHR 0xB1] @ '' Paneli''"

definition Duvar_Paneli_Toplam :: string where
  "Duvar_Paneli_Toplam = ''Duvar Paneli (Toplam)''"

definition Cati_Kaplama_Toplam :: string where
  "Cati_Kaplama_Toplam = [CHR 0xC3, CHR 0x87] @ ''at'' @ [CHR 0xC4, CHR 0xB1] @ '' Kaplama (Toplam)''"

definition Fayans :: string where
  "Fayans = ''Fayans''"

definition Boya :: string where
  "Boya = ''Boya''"

definition Zemin :: string where
  "Zemin = ''Zemin''"

definition Duvar :: string where
  "Duvar = ''Duvar''"

definition PVC_Pencere :: string where
  "PVC_Pencere = ''PVC Pencere''"

definition Dis_Kapi :: string where
  "Dis_Kapi = ''D'' @ [CHR 0xC4, CHR 0xB1, CHR 0xC5, CHR 0x9F] @ '' Kap'' @ [CHR 0xC4, CHR 0xB1]"

definition Ic_Kapi :: string where
  "Ic_Kapi = [CHR 0xC4, CHR 0xB0, CHR 0xC3, CHR 0xA7] @ '' Kap'' @ [CHR 0xC4, CHR 0xB1]"

definition ana_giris :: string where
  "ana_giris = ''ana giri'' @ [CHR 0xC5, CHR 0x9F]"

definition Tesisat :: string where
  "Tesisat = ''Tesisat ve Ba'' @ [CHR 0xC4, CHR 0x9F] @ ''lant'' @ [CHR 0xC4, CHR 0xB1]
     @ '' Elemanlar'' @ [CHR 0xC4, CHR 0xB1] @ '' (Tahmini)''"

subsection \<open>The catalog tables\<close>

record malzeme_satiri =
  malzeme_id :: int
  malzeme_adi :: string
  malzeme_kategori :: string
  birim_olcu_tipi :: string
  varsayilan_fire_orani :: real
  aciklama :: string

record fiyat_satiri =
  fiyat_id :: int
  fiyat_malzeme_id :: int
  fiyat_birim_fiyat :: real
  gecerlilik_tarihi :: string
  tedarikci :: string

record sarfiyat_satiri =
  sarfiyat_id :: int
  sarfiyat_malzeme_id :: int
  uygulama_turu :: string
  sarfiyat_degeri :: real
  sarfiyat_birimi :: string

text \<open>
  The column \<^verbatim>\<open>ek_ozellikler\<close> holds a JSON text. The model keeps what the estimator
  sees of it: \<open>Bos\<close> is NULL or the empty text (falsy, never parsed), \<open>Bozuk\<close> is a
  text on which \<^verbatim>\<open>json.loads\<close> raises \<^verbatim>\<open>JSONDecodeError\<close>, and
  \<open>Sozluk d\<close> is a text that parses to the object \<open>d\<close> with numeric values.
\<close>

datatype ek_metni = Bos | Bozuk | Sozluk "string \<rightharpoonup> real"

record detay_satiri =
  detay_id :: int
  oda_tipi :: string
  uygulama_alani :: string
  ek_ozellikler :: ek_metni

record veritabani =
  Malzemeler :: "malzeme_satiri list"
  Fiyatlar :: "fiyat_satiri list"
  Sarfiyatlar :: "sarfiyat_satiri list"
  UygulamaDetaylari :: "detay_satiri list"

record malzeme_bilgisi =
  malzeme :: malzeme_satiri
  fiyat :: "fiyat_satiri option"
  sarfiyat :: "sarfiyat_satiri list"

text \<open>
  \<^verbatim>\<open>ORDER BY gecerlilik_tarihi DESC, fiyat_id DESC LIMIT 1\<close>: the row with the
  latest date (texts compared bytewise), the greatest id among equal dates.
\<close>

definition daha_guncel :: "fiyat_satiri \<Rightarrow> fiyat_satiri \<Rightarrow> bool" where
  "daha_guncel a b \<longleftrightarrow>
     gecerlilik_tarihi b < gecerlilik_tarihi a
     \<or> (gecerlilik_tarihi b = gecerlilik_tarihi a \<and> fiyat_id b < fiyat_id a)"

fun en_guncel_fiyat :: "fiyat_satiri list \<Rightarrow> fiyat_satiri option" where
  "en_guncel_fiyat [] = None"
| "en_guncel_fiyat (f # fs) =
     (case en_guncel_fiyat fs of
        None \<Rightarrow> Some f
      | Some g \<Rightarrow> if daha_guncel g f then Some g else Some f)"

definition malzeme_bilgisi_getir :: "veritabani \<Rightarrow> string \<Rightarrow> malzeme_bilgisi option" where
  "malzeme_bilgisi_getir db malzeme_adi_veya_kategori =
     (let ada_gore = filter (\<lambda>m. malzeme_adi m = malzeme_adi_veya_kategori) (Malzemeler db);
          malzeme_data =
            (if ada_gore = []
             then filter (\<lambda>m. malzeme_kategori m = malzeme_adi_veya_kategori) (Malzemeler db)
             else ada_gore)
      in case malzeme_data of
           [] \<Rightarrow> None
         | m # _ \<Rightarrow>
             Some \<lparr>malzeme = m,
                   fiyat = en_guncel_fiyat
                     (filter (\<lambda>f. fiyat_malzeme_id f = malzeme_id m) (Fiyatlar db)),
                   sarfiyat = filter (\<lambda>s. sarfiyat_malzeme_id s = malzeme_id m) (Sarfiyatlar db)\<rparr>)"

text \<open>
  The query on \<^verbatim>\<open>UygulamaDetaylari\<close> followed by the parse of the first row's
  property bag, as both covering branches do it: no row, a falsy text or a text that
  does not parse leave the empty dictionary.
\<close>

definition ek_ozellikler_getir :: "veritabani \<Rightarrow> string \<Rightarrow> string \<Rightarrow> (string \<rightharpoonup> real)" where
  "ek_ozellikler_getir db oda alan =
     (case filter (\<lambda>d. oda_tipi d = oda \<and> uygulama_alani d = alan) (UygulamaDetaylari db) of
        [] \<Rightarrow> Map.empty
      | d # _ \<Rightarrow> (case ek_ozellikler d of
                    Bos \<Rightarrow> Map.empty
                  | Bozuk \<Rightarrow> Map.empty
                  | Sozluk s \<Rightarrow> s))"

subsection \<open>The house description\<close>

record oda =
  oda_adi :: string
  oda_uzunluk :: real
  oda_genislik :: real
  oda_yukseklik :: real
  zemin_kaplama_tipi :: string
  duvar_kaplama_tipi :: string

record pencere =
  pencere_genislik :: real
  pencere_yukseklik :: real
  pencere_adet :: int

record kapi =
  kapi_adi :: string
  kapi_genislik :: real
  kapi_yukseklik :: real
  kapi_adet :: int

record ev =
  ev_tipi :: string
  kat_sayisi :: int
  cati_tipi :: string
  cati_egim_acisi :: real
  oda_listesi :: "oda list"
  pencere_listesi :: "pencere list"
  kapi_listesi :: "kapi list"

subsection \<open>Geometry: \<^verbatim>\<open>_alan_hesapla\<close>\<close>

record alan =
  zemin :: real
  duvar :: real

record geometri =
  toplam_pencere_alani :: real
  toplam_kapi_alani :: real
  oda_alanlari :: "string \<rightharpoonup> alan"
  toplam_taban_alani :: real
  toplam_duvar_alani_brut :: real
  cati_alani_taban :: real
  cati_alani :: real

definition zemin_alani :: "oda \<Rightarrow> real" where
  "zemin_alani od = oda_uzunluk od * oda_genislik od"

definition duvar_alani :: "oda \<Rightarrow> real" where
  "duvar_alani od = 2 * (oda_uzunluk od + oda_genislik od) * oda_yukseklik od"

text \<open>The loop over the rooms: the area dictionary and the two running totals.\<close>

fun oda_dongusu ::
  "oda list \<Rightarrow> (string \<rightharpoonup> alan) \<times> real \<times> real \<Rightarrow> (string \<rightharpoonup> alan) \<times> real \<times> real" where
  "oda_dongusu [] acc = acc"
| "oda_dongusu (od # odalar) (alanlar, taban, brut) =
     oda_dongusu odalar
       (alanlar(oda_adi od \<mapsto> \<lparr>zemin = zemin_alani od, duvar = duvar_alani od\<rparr>),
        taban + zemin_alani od,
        brut + duvar_alani od)"

definition radians :: "real \<Rightarrow> real" where
  "radians d = d * pi / 180"

definition cati_alani_hesapla :: "string \<Rightarrow> real \<Rightarrow> real \<Rightarrow> real" where
  "cati_alani_hesapla tip egim taban =
     (if tip \<noteq> Duz \<and> egim > 0
      then (let cos_angle = cos (radians egim)
            in if \<bar>cos_angle\<bar> < 0.001 then taban * 2 else taban / cos_angle)
      else taban)"

definition alan_hesapla :: "ev \<Rightarrow> geometri" where
  "alan_hesapla e =
     (let pencere_alani =
            sum_list (map (\<lambda>p. pencere_genislik p * pencere_yukseklik p * real_of_int (pencere_adet p))
                          (pencere_listesi e));
          kapi_alani =
            sum_list (map (\<lambda>k. kapi_genislik k * kapi_yukseklik k * real_of_int (kapi_adet k))
                          (kapi_listesi e));
          (alanlar, taban, brut) = oda_dongusu (oda_listesi e) (Map.empty, 0, 0);
          taban_alani_her_kat =
            (if kat_sayisi e > 0 then taban / real_of_int (kat_sayisi e) else taban)
      in \<lparr>toplam_pencere_alani = pencere_alani,
          toplam_kapi_alani = kapi_alani,
          oda_alanlari = alanlar,
          toplam_taban_alani = taban,
          toplam_duvar_alani_brut = brut,
          cati_alani_taban = taban_alani_her_kat,
          cati_alani = cati_alani_hesapla (cati_tipi e) (cati_egim_acisi e) taban_alani_her_kat\<rparr>)"

subsection \<open>The result: \<^verbatim>\<open>malzeme_ihtiyaclari\<close>\<close>

text \<open>
  A quantity of a line is a number, or the text \<^verbatim>\<open>"N/A"\<close> that the overhead line
  carries.
\<close>

datatype miktar = Sayi real | NA

record ihtiyac =
  net_miktar :: miktar
  gerekli_miktar :: miktar
  birim_olcu :: string
  birim_fiyat :: real
  maliyet :: real

text \<open>
  A Python dictionary keeps its keys in insertion order, and an assignment to a key
  that is present replaces the value where the key stands.
\<close>

fun dict_set :: "'k \<Rightarrow> 'v \<Rightarrow> ('k \<times> 'v) list \<Rightarrow> ('k \<times> 'v) list" where
  "dict_set k v [] = [(k, v)]"
| "dict_set k v ((k', v') # kvs) =
     (if k' = k then (k, v) # kvs else (k', v') # dict_set k v kvs)"

datatype hata = UnboundLocalError | KeyError

text \<open>
  The state of one run: the dictionary of lines, the running total and the local
  variable \<^verbatim>\<open>maliyet\<close>, which is unbound (\<open>None\<close>) until a branch assigns it and keeps
  its value from one loop iteration to the next.
\<close>

record durum =
  malzeme_ihtiyaclari :: "(string \<times> ihtiyac) list"
  toplam_maliyet_temp :: real
  maliyet_yerel :: "real option"

text \<open>\<^verbatim>\<open>maliyet = ...; self.malzeme_ihtiyaclari[etiket] = {..., "maliyet": maliyet}\<close>\<close>

definition satir_yaz :: "string \<Rightarrow> ihtiyac \<Rightarrow> durum \<Rightarrow> durum" where
  "satir_yaz etiket satir st =
     st\<lparr>malzeme_ihtiyaclari := dict_set etiket satir (malzeme_ihtiyaclari st),
        maliyet_yerel := Some (maliyet satir)\<rparr>"

text \<open>\<^verbatim>\<open>toplam_maliyet_temp += maliyet\<close>, which reads the local variable.\<close>

definition toplama_ekle :: "durum \<Rightarrow> hata + durum" where
  "toplama_ekle st =
     (case maliyet_yerel st of
        None \<Rightarrow> Inl UnboundLocalError
      | Some m \<Rightarrow> Inr (st\<lparr>toplam_maliyet_temp := toplam_maliyet_temp st + m\<rparr>))"

text \<open>The two together, where the addition follows the assignment in the same branch.\<close>

definition satir_ekle :: "string \<Rightarrow> ihtiyac \<Rightarrow> durum \<Rightarrow> durum" where
  "satir_ekle etiket satir st =
     (satir_yaz etiket satir st)\<lparr>toplam_maliyet_temp := toplam_maliyet_temp st + maliyet satir\<rparr>"

text \<open>\<^verbatim>\<open>if malzeme_info and malzeme_info["fiyat"]\<close>\<close>

definition fiyatli_malzeme :: "veritabani \<Rightarrow> string \<Rightarrow> (malzeme_bilgisi \<times> fiyat_satiri) option" where
  "fiyatli_malzeme db ad =
     (case malzeme_bilgisi_getir db ad of
        None \<Rightarrow> None
      | Some info \<Rightarrow> (case fiyat info of None \<Rightarrow> None | Some f \<Rightarrow> Some (info, f)))"

subsection \<open>Wall panels and roof panels\<close>

definition net_duvar_alani_paneller_icin :: "geometri \<Rightarrow> real" where
  "net_duvar_alani_paneller_icin g =
     (let n = toplam_duvar_alani_brut g - toplam_pencere_alani g - toplam_kapi_alani g
      in if n < 0 then 0 else n)"

definition duvar_panelleri :: "veritabani \<Rightarrow> geometri \<Rightarrow> durum \<Rightarrow> durum" where
  "duvar_panelleri db g st =
     (case fiyatli_malzeme db Duvar_Paneli of
        None \<Rightarrow> st
      | Some (info, f) \<Rightarrow>
          (let net = net_duvar_alani_paneller_icin g;
               gerekli = net * (1 + varsayilan_fire_orani (malzeme info));
               m = gerekli * fiyat_birim_fiyat f
           in satir_ekle Duvar_Paneli_Toplam
                \<lparr>net_miktar = Sayi net, gerekli_miktar = Sayi gerekli,
                 birim_olcu = birim_olcu_tipi (malzeme info),
                 birim_fiyat = fiyat_birim_fiyat f, maliyet = m\<rparr> st))"

definition cati_kaplama :: "veritabani \<Rightarrow> geometri \<Rightarrow> durum \<Rightarrow> durum" where
  "cati_kaplama db g st =
     (case fiyatli_malzeme db Cati_Paneli of
        None \<Rightarrow> st
      | Some (info, f) \<Rightarrow>
          (let gerekli = cati_alani g * (1 + varsayilan_fire_orani (malzeme info));
               m = gerekli * fiyat_birim_fiyat f
           in satir_ekle Cati_Kaplama_Toplam
                \<lparr>net_miktar = Sayi (cati_alani g), gerekli_miktar = Sayi gerekli,
                 birim_olcu = birim_olcu_tipi (malzeme info),
                 birim_fiyat = fiyat_birim_fiyat f, maliyet = m\<rparr> st))"

subsection \<open>Floor and wall covering of a room\<close>

definition oda_etiketi :: "string \<Rightarrow> string \<Rightarrow> string \<Rightarrow> string" where
  "oda_etiketi oda yuzey ad = oda @ '' '' @ yuzey @ '' ('' @ ad @ '')''"

definition zemin_kaplama :: "veritabani \<Rightarrow> oda \<Rightarrow> real \<Rightarrow> durum \<Rightarrow> durum" where
  "zemin_kaplama db od zemin_alani_net st =
     (case fiyatli_malzeme db (zemin_kaplama_tipi od) of
        None \<Rightarrow> st
      | Some (info, f) \<Rightarrow>
          (let ek = ek_ozellikler_getir db (oda_adi od) Zemin;
               etiket = oda_etiketi (oda_adi od) Zemin (malzeme_adi (malzeme info))
           in if malzeme_adi (malzeme info) = Fayans
                 \<and> (case ek ''fayans_boyut_m2'' of None \<Rightarrow> False | Some b \<Rightarrow> b > 0)
              then (let fayans_m2 = the (ek ''fayans_boyut_m2'');
                        gerekli_adet =
                          (zemin_alani_net / fayans_m2) * (1 + varsayilan_fire_orani (malzeme info));
                        m = gerekli_adet * fiyat_birim_fiyat f
                    in satir_ekle etiket
                         \<lparr>net_miktar = Sayi zemin_alani_net, gerekli_miktar = Sayi gerekli_adet,
                          birim_olcu = ''adet'',
                          birim_fiyat = fiyat_birim_fiyat f, maliyet = m\<rparr> st)
              else (let gerekli = zemin_alani_net * (1 + varsayilan_fire_orani (malzeme info));
                        m = gerekli * fiyat_birim_fiyat f
                    in satir_ekle etiket
                         \<lparr>net_miktar = Sayi zemin_alani_net, gerekli_miktar = Sayi gerekli,
                          birim_olcu = birim_olcu_tipi (malzeme info),
                          birim_fiyat = fiyat_birim_fiyat f, maliyet = m\<rparr> st)))"

definition duvar_alani_net :: "geometri \<Rightarrow> real \<Rightarrow> real" where
  "duvar_alani_net g oda_duvar_alani_brut =
     (let pencere_kapi_bosluk_orani =
            (if toplam_duvar_alani_brut g > 0
             then (oda_duvar_alani_brut / toplam_duvar_alani_brut g)
                    * (toplam_pencere_alani g + toplam_kapi_alani g)
             else 0);
          n = oda_duvar_alani_brut - pencere_kapi_bosluk_orani
      in if n < 0 then 0 else n)"

text \<open>
  The wall covering. In the paint branch the cost is added to the running total right
  after the line is written; the addition after the \<^verbatim>\<open>if\<close>/\<^verbatim>\<open>else\<close> then runs
  in every case, also when the paint has no rate for walls and the branch has assigned
  nothing.
\<close>

definition duvar_kaplama :: "veritabani \<Rightarrow> oda \<Rightarrow> real \<Rightarrow> durum \<Rightarrow> hata + durum" where
  "duvar_kaplama db od alan_net st =
     (case fiyatli_malzeme db (duvar_kaplama_tipi od) of
        None \<Rightarrow> Inr st
      | Some (info, f) \<Rightarrow>
          (let etiket = oda_etiketi (oda_adi od) Duvar (malzeme_adi (malzeme info))
           in if malzeme_adi (malzeme info) = Boya
              then (case filter (\<lambda>s. uygulama_turu s = Duvar) (sarfiyat info) of
                      [] \<Rightarrow> toplama_ekle st
                    | s # _ \<Rightarrow>
                        (let ek = ek_ozellikler_getir db (oda_adi od) Duvar;
                             kat = (case ek ''kat_sayisi'' of None \<Rightarrow> 1 | Some k \<Rightarrow> k);
                             gerekli_litre =
                               alan_net * sarfiyat_degeri s * kat
                                 * (1 + varsayilan_fire_orani (malzeme info));
                             m = gerekli_litre * fiyat_birim_fiyat f
                         in toplama_ekle
                              (satir_ekle etiket
                                 \<lparr>net_miktar = Sayi alan_net, gerekli_miktar = Sayi gerekli_litre,
                                  birim_olcu = ''litre'',
                                  birim_fiyat = fiyat_birim_fiyat f, maliyet = m\<rparr> st)))
              else (let gerekli = alan_net * (1 + varsayilan_fire_orani (malzeme info));
                        m = gerekli * fiyat_birim_fiyat f
                    in toplama_ekle
                         (satir_yaz etiket
                            \<lparr>net_miktar = Sayi alan_net, gerekli_miktar = Sayi gerekli,
                             birim_olcu = birim_olcu_tipi (malzeme info),
                             birim_fiyat = fiyat_birim_fiyat f, maliyet = m\<rparr> st))))"

definition oda_adimi :: "veritabani \<Rightarrow> geometri \<Rightarrow> oda \<Rightarrow> durum \<Rightarrow> hata + durum" where
  "oda_adimi db g od st =
     (case oda_alanlari g (oda_adi od) of
        None \<Rightarrow> Inl KeyError
      | Some a \<Rightarrow> duvar_kaplama db od (duvar_alani_net g (duvar a)) (zemin_kaplama db od (zemin a) st))"

fun odalar :: "veritabani \<Rightarrow> geometri \<Rightarrow> oda list \<Rightarrow> durum \<Rightarrow> hata + durum" where
  "odalar db g [] st = Inr st"
| "odalar db g (od # ods) st =
     (case oda_adimi db g od st of
        Inl e \<Rightarrow> Inl e
      | Inr st' \<Rightarrow> odalar db g ods st')"

subsection \<open>Windows and doors\<close>

text \<open>The decimal digits of a natural number, as \<^verbatim>\<open>str\<close> prints an index.\<close>

fun str_nat :: "nat \<Rightarrow> string" where
  "str_nat n =
     (if n < 10 then [char_of (48 + n)]
      else str_nat (n div 10) @ [char_of (48 + n mod 10)])"

declare str_nat.simps [simp del]

definition pencere_etiketi :: "(real \<Rightarrow> string) \<Rightarrow> nat \<Rightarrow> pencere \<Rightarrow> string" where
  "pencere_etiketi str_float i p =
     ''Pencere '' @ str_nat (i + 1) @ '' ('' @ str_float (pencere_genislik p) @ ''x''
       @ str_float (pencere_yukseklik p) @ ''m)''"

definition pencere_adimi :: "(real \<Rightarrow> string) \<Rightarrow> veritabani \<Rightarrow> nat \<Rightarrow> pencere \<Rightarrow> durum \<Rightarrow> durum" where
  "pencere_adimi str_float db i p st =
     (case fiyatli_malzeme db PVC_Pencere of
        None \<Rightarrow> st
      | Some (info, f) \<Rightarrow>
          (let gerekli_adet = real_of_int (pencere_adet p);
               m = gerekli_adet * fiyat_birim_fiyat f
           in satir_ekle (pencere_etiketi str_float i p)
                \<lparr>net_miktar = Sayi (real_of_int (pencere_adet p)), gerekli_miktar = Sayi gerekli_adet,
                 birim_olcu = ''adet'',
                 birim_fiyat = fiyat_birim_fiyat f, maliyet = m\<rparr> st))"

fun pencereler :: "(real \<Rightarrow> string) \<Rightarrow> veritabani \<Rightarrow> nat \<Rightarrow> pencere list \<Rightarrow> durum \<Rightarrow> durum" where
  "pencereler str_float db i [] st = st"
| "pencereler str_float db i (p # ps) st =
     pencereler str_float db (Suc i) ps (pencere_adimi str_float db i p st)"

definition kategori_kapi :: "(string \<Rightarrow> string) \<Rightarrow> kapi \<Rightarrow> string" where
  "kategori_kapi lower k = (if sublist ana_giris (lower (kapi_adi k)) then Dis_Kapi else Ic_Kapi)"

definition kapi_etiketi :: "(real \<Rightarrow> string) \<Rightarrow> nat \<Rightarrow> kapi \<Rightarrow> string" where
  "kapi_etiketi str_float i k =
     ''Kap'' @ [CHR 0xC4, CHR 0xB1] @ '' '' @ str_nat (i + 1) @ '' (''
       @ str_float (kapi_genislik k) @ ''x'' @ str_float (kapi_yukseklik k) @ ''m)''"

definition kapi_adimi ::
  "(string \<Rightarrow> string) \<Rightarrow> (real \<Rightarrow> string) \<Rightarrow> veritabani \<Rightarrow> nat \<Rightarrow> kapi \<Rightarrow> durum \<Rightarrow> durum" where
  "kapi_adimi lower str_float db i k st =
     (case fiyatli_malzeme db (kategori_kapi lower k) of
        None \<Rightarrow> st
      | Some (info, f) \<Rightarrow>
          (let gerekli_adet = real_of_int (kapi_adet k);
               m = gerekli_adet * fiyat_birim_fiyat f
           in satir_ekle (kapi_etiketi str_float i k)
                \<lparr>net_miktar = Sayi (real_of_int (kapi_adet k)), gerekli_miktar = Sayi gerekli_adet,
                 birim_olcu = ''adet'',
                 birim_fiyat = fiyat_birim_fiyat f, maliyet = m\<rparr> st))"

fun kapilar ::
  "(string \<Rightarrow> string) \<Rightarrow> (real \<Rightarrow> string) \<Rightarrow> veritabani \<Rightarrow> nat \<Rightarrow> kapi list \<Rightarrow> durum \<Rightarrow> durum" where
  "kapilar lower str_float db i [] st = st"
| "kapilar lower str_float db i (k # ks) st =
     kapilar lower str_float db (Suc i) ks (kapi_adimi lower str_float db i k st)"

subsection \<open>Overhead and the whole run\<close>

definition tesisat :: "durum \<Rightarrow> durum" where
  "tesisat st =
     (let tesisat_baglanti_orani = 0.15;
          tahmini_tesisat_maliyeti = toplam_maliyet_temp st * tesisat_baglanti_orani
      in st\<lparr>malzeme_ihtiyaclari :=
               dict_set Tesisat
                 \<lparr>net_miktar = NA, gerekli_miktar = NA, birim_olcu = ''TL'',
                  birim_fiyat = 1, maliyet = tahmini_tesisat_maliyeti\<rparr>
                 (malzeme_ihtiyaclari st),
            toplam_maliyet_temp := toplam_maliyet_temp st + tahmini_tesisat_maliyeti\<rparr>)"

definition baslangic :: durum where
  "baslangic = \<lparr>malzeme_ihtiyaclari = [], toplam_maliyet_temp = 0, maliyet_yerel = None\<rparr>"

text \<open>The state after steps 1 to 5, before the overhead line.\<close>

definition ara_durum ::
  "(string \<Rightarrow> string) \<Rightarrow> (real \<Rightarrow> string) \<Rightarrow> veritabani \<Rightarrow> ev \<Rightarrow> hata + durum" where
  "ara_durum lower str_float db e =
     (let g = alan_hesapla e
      in case odalar db g (oda_listesi e) (cati_kaplama db g (duvar_panelleri db g baslangic)) of
           Inl err \<Rightarrow> Inl err
         | Inr st \<Rightarrow>
             Inr (kapilar lower str_float db 0 (kapi_listesi e)
                    (pencereler str_float db 0 (pencere_listesi e) st)))"

definition malzeme_ihtiyacini_hesapla ::
  "(string \<Rightarrow> string) \<Rightarrow> (real \<Rightarrow> string) \<Rightarrow> veritabani \<Rightarrow> ev
     \<Rightarrow> hata + ((string \<times> ihtiyac) list \<times> real)" where
  "malzeme_ihtiyacini_hesapla lower str_float db e =
     (case ara_durum lower str_float db e of
        Inl err \<Rightarrow> Inl err
      | Inr st \<Rightarrow>
          (let son = tesisat st
           in Inr (malzeme_ihtiyaclari son, toplam_maliyet_temp son)))"

subsection \<open>The caller: \<^verbatim>\<open>calculate_cost\<close>\<close>

text \<open>
  The request handler, from the point where \<^verbatim>\<open>ev_data\<close> has been put together: the
  list \<^verbatim>\<open>messages\<close> starts empty, the estimator runs, and only an exception adds a
  message. Nothing else writes to the list.
\<close>

datatype mesaj = Danger hata

datatype yanit =
  Sonuc "(string \<times> ihtiyac) list" real "mesaj list"
| Basarisiz "mesaj list"

definition calculate_cost ::
  "(string \<Rightarrow> string) \<Rightarrow> (real \<Rightarrow> string) \<Rightarrow> veritabani \<Rightarrow> ev \<Rightarrow> yanit" where
  "calculate_cost lower str_float db ev_data =
     (let messages = []
      in case malzeme_ihtiyacini_hesapla lower str_float db ev_data of
           Inr (ihtiyaclar, toplam_maliyet) \<Rightarrow> Sonuc ihtiyaclar toplam_maliyet messages
         | Inl err \<Rightarrow> Basarisiz (messages @ [Danger err]))"

subsection \<open>Notions used in the statements\<close>

text \<open>The overhead line with a given cost.\<close>

definition tesisat_satiri :: "real \<Rightarrow> ihtiyac" where
  "tesisat_satiri m =
     \<lparr>net_miktar = NA, gerekli_miktar = NA, birim_olcu = ''TL'', birim_fiyat = 1, maliyet = m\<rparr>"

text \<open>The sum of the costs of all lines of a result, and of all lines but the overhead.\<close>

definition satir_maliyetleri :: "(string \<times> ihtiyac) list \<Rightarrow> real" where
  "satir_maliyetleri m = sum_list (map (\<lambda>kv. maliyet (snd kv)) m)"

definition diger_maliyetler :: "(string \<times> ihtiyac) list \<Rightarrow> real" where
  "diger_maliyetler m = satir_maliyetleri (filter (\<lambda>kv. fst kv \<noteq> Tesisat) m)"

text \<open>The cost of a line is its numeric required quantity times its unit price.\<close>

definition carpim :: "ihtiyac \<Rightarrow> bool" where
  "carpim l = (case gerekli_miktar l of Sayi q \<Rightarrow> maliyet l = q * birim_fiyat l | NA \<Rightarrow> False)"

text \<open>The labels of the state are distinct and every line satisfies \<open>carpim\<close>.\<close>

definition duzenli :: "durum \<Rightarrow> bool" where
  "duzenli st \<longleftrightarrow>
     distinct (map fst (malzeme_ihtiyaclari st))
     \<and> list_all (\<lambda>kv. carpim (snd kv)) (malzeme_ihtiyaclari st)"

text \<open>No line of the state is the overhead line.\<close>

definition tesisatsiz :: "durum \<Rightarrow> bool" where
  "tesisatsiz st \<longleftrightarrow> Tesisat \<notin> fst ` set (malzeme_ihtiyaclari st)"

text \<open>
  A room whose wall covering resolves to the priced paint while the paint has no
  consumption rate for walls.
\<close>

definition sarfiyatsiz_boya :: "veritabani \<Rightarrow> oda \<Rightarrow> bool" where
  "sarfiyatsiz_boya db od =
     (case fiyatli_malzeme db (duvar_kaplama_tipi od) of
        None \<Rightarrow> False
      | Some (info, f) \<Rightarrow>
          malzeme_adi (malzeme info) = Boya
          \<and> filter (\<lambda>s. uygulama_turu s = Duvar) (sarfiyat info) = [])"

text \<open>The net quantity of a line is not negative (the overhead line has none).\<close>

definition net_negatif_degil :: "ihtiyac \<Rightarrow> bool" where
  "net_negatif_degil l = (case net_miktar l of Sayi q \<Rightarrow> 0 \<le> q | NA \<Rightarrow> True)"



text \<open>No line of the state has a negative net quantity.\<close>

definition netler_negatif_degil :: "durum \<Rightarrow> bool" where
  "netler_negatif_degil st \<longleftrightarrow>
     list_all (\<lambda>kv. net_negatif_degil (snd kv)) (malzeme_ihtiyaclari st)"

subsection \<open>Example inputs\<close>

text \<open>
  The catalog that \<^verbatim>\<open>startup_event\<close> inserts, row by row; the date of the prices is
  the day of the start.
\<close>

definition ornek_malzemeler :: "malzeme_satiri list" where
  "ornek_malzemeler =
     [\<lparr>malzeme_id = 1, malzeme_adi = ''Duvar Paneli'', malzeme_kategori = (''Yap'' @ [CHR 0xC4, CHR 0xB1] @ ''sal''),
        birim_olcu_tipi = ''m2'', varsayilan_fire_orani = 0.05,
        aciklama = ''Prefabric ev duvar paneli''\<rparr>,
      \<lparr>malzeme_id = 2, malzeme_adi = ([CHR 0xC3, CHR 0x87] @ ''at'' @ [CHR 0xC4, CHR 0xB1] @ '' Paneli''), malzeme_kategori = (''Yap'' @ [CHR 0xC4, CHR 0xB1] @ ''sal''),
        birim_olcu_tipi = ''m2'', varsayilan_fire_orani = 0.07,
        aciklama = (''Prefabric ev '' @ [CHR 0xC3, CHR 0xA7] @ ''at'' @ [CHR 0xC4, CHR 0xB1] @ '' paneli'')\<rparr>,
      \<lparr>malzeme_id = 3, malzeme_adi = ''Fayans'', malzeme_kategori = ''Zemin Kaplama'',
        birim_olcu_tipi = ''m2'', varsayilan_fire_orani = 0.10,
        aciklama = ''Standart seramik fayans''\<rparr>,
      \<lparr>malzeme_id = 4, malzeme_adi = ''Laminat Parke'', malzeme_kategori = ''Zemin Kaplama'',
        birim_olcu_tipi = ''m2'', varsayilan_fire_orani = 0.07,
        aciklama = ''8mm laminat parke''\<rparr>,
      \<lparr>malzeme_id = 5, malzeme_adi = ''Boya'', malzeme_kategori = ''Duvar Kaplama'',
        birim_olcu_tipi = ''litre'', varsayilan_fire_orani = 0.05,
        aciklama = (''Su bazl'' @ [CHR 0xC4, CHR 0xB1] @ '' i'' @ [CHR 0xC3, CHR 0xA7] @ '' cephe boyas'' @ [CHR 0xC4, CHR 0xB1])\<rparr>,
      \<lparr>malzeme_id = 6, malzeme_adi = ''PVC Pencere'', malzeme_kategori = (''Do'' @ [CHR 0xC4, CHR 0x9F] @ ''rama''),
        birim_olcu_tipi = ''adet'', varsayilan_fire_orani = 0,
        aciklama = (''Is'' @ [CHR 0xC4, CHR 0xB1] @ ''caml'' @ [CHR 0xC4, CHR 0xB1] @ '' PVC pencere'')\<rparr>,
      \<lparr>malzeme_id = 7, malzeme_adi = ([CHR 0xC4, CHR 0xB0, CHR 0xC3, CHR 0xA7] @ '' Kap'' @ [CHR 0xC4, CHR 0xB1]), malzeme_kategori = (''Do'' @ [CHR 0xC4, CHR 0x9F] @ ''rama''),
        birim_olcu_tipi = ''adet'', varsayilan_fire_orani = 0,
        aciklama = (''Panel i'' @ [CHR 0xC3, CHR 0xA7] @ '' oda kap'' @ [CHR 0xC4, CHR 0xB1] @ ''s'' @ [CHR 0xC4, CHR 0xB1])\<rparr>,
      \<lparr>malzeme_id = 8, malzeme_adi = (''D'' @ [CHR 0xC4, CHR 0xB1, CHR 0xC5, CHR 0x9F] @ '' Kap'' @ [CHR 0xC4, CHR 0xB1]), malzeme_kategori = (''Do'' @ [CHR 0xC4, CHR 0x9F] @ ''rama''),
        birim_olcu_tipi = ''adet'', varsayilan_fire_orani = 0,
        aciklama = ([CHR 0xC3, CHR 0x87] @ ''elik d'' @ [CHR 0xC4, CHR 0xB1, CHR 0xC5, CHR 0x9F] @ '' kap'' @ [CHR 0xC4, CHR 0xB1])\<rparr>]"

definition ornek_fiyatlar :: "string \<Rightarrow> fiyat_satiri list" where
  "ornek_fiyatlar current_date =
     [\<lparr>fiyat_id = 1, fiyat_malzeme_id = 1, fiyat_birim_fiyat = 120,
        gecerlilik_tarihi = current_date, tedarikci = ''A Panel''\<rparr>,
      \<lparr>fiyat_id = 2, fiyat_malzeme_id = 2, fiyat_birim_fiyat = 150,
        gecerlilik_tarihi = current_date, tedarikci = (''B '' @ [CHR 0xC3, CHR 0x87] @ ''at'' @ [CHR 0xC4, CHR 0xB1])\<rparr>,
      \<lparr>fiyat_id = 3, fiyat_malzeme_id = 3, fiyat_birim_fiyat = 50,
        gecerlilik_tarihi = current_date, tedarikci = (''C Yap'' @ [CHR 0xC4, CHR 0xB1])\<rparr>,
      \<lparr>fiyat_id = 4, fiyat_malzeme_id = 4, fiyat_birim_fiyat = 80,
        gecerlilik_tarihi = current_date, tedarikci = ''D Zemin''\<rparr>,
      \<lparr>fiyat_id = 5, fiyat_malzeme_id = 5, fiyat_birim_fiyat = 50,
        gecerlilik_tarihi = current_date, tedarikci = ''E Boya''\<rparr>,
      \<lparr>fiyat_id = 6, fiyat_malzeme_id = 6, fiyat_birim_fiyat = 1500,
        gecerlilik_tarihi = current_date, tedarikci = ''F Pencere''\<rparr>,
      \<lparr>fiyat_id = 7, fiyat_malzeme_id = 7, fiyat_birim_fiyat = 800,
        gecerlilik_tarihi = current_date, tedarikci = (''G Kap'' @ [CHR 0xC4, CHR 0xB1])\<rparr>,
      \<lparr>fiyat_id = 8, fiyat_malzeme_id = 8, fiyat_birim_fiyat = 2000,
        gecerlilik_tarihi = current_date, tedarikci = (''G Kap'' @ [CHR 0xC4, CHR 0xB1])\<rparr>]"

definition ornek_sarfiyatlar :: "sarfiyat_satiri list" where
  "ornek_sarfiyatlar =
     [\<lparr>sarfiyat_id = 1, sarfiyat_malzeme_id = 5, uygulama_turu = ''Duvar'',
        sarfiyat_degeri = 0.15, sarfiyat_birimi = ''litre/m2''\<rparr>]"

definition ornek_detaylar :: "detay_satiri list" where
  "ornek_detaylar =
     [\<lparr>detay_id = 1, oda_tipi = ''Banyo'', uygulama_alani = ''Zemin'',
        ek_ozellikler = Sozluk ([''fayans_boyut_m2'' \<mapsto> 0.09])\<rparr>,
      \<lparr>detay_id = 2, oda_tipi = ''Mutfak'', uygulama_alani = ''Zemin'',
        ek_ozellikler = Sozluk ([''fayans_boyut_m2'' \<mapsto> 0.09])\<rparr>,
      \<lparr>detay_id = 3, oda_tipi = ''Salon'', uygulama_alani = ''Duvar'',
        ek_ozellikler = Sozluk ([''kat_sayisi'' \<mapsto> 2])\<rparr>,
      \<lparr>detay_id = 4, oda_tipi = (''Yatak Odas'' @ [CHR 0xC4, CHR 0xB1]), uygulama_alani = ''Duvar'',
        ek_ozellikler = Sozluk ([''kat_sayisi'' \<mapsto> 2])\<rparr>,
      \<lparr>detay_id = 5, oda_tipi = ''Salon'', uygulama_alani = ''Zemin'',
        ek_ozellikler = Sozluk Map.empty\<rparr>]"

definition ornek_veritabani :: veritabani where
  "ornek_veritabani =
     \<lparr>Malzemeler = ornek_malzemeler, Fiyatlar = ornek_fiyatlar ''2024-01-01'',
      Sarfiyatlar = ornek_sarfiyatlar, UygulamaDetaylari = ornek_detaylar\<rparr>"

definition bos_veritabani :: veritabani where
  "bos_veritabani = \<lparr>Malzemeler = [], Fiyatlar = [], Sarfiyatlar = [], UygulamaDetaylari = []\<rparr>"

text \<open>\<^verbatim>\<open>str.lower\<close> as it acts on ASCII text, for the examples.\<close>

definition ascii_lower :: "string \<Rightarrow> string" where
  "ascii_lower s =
     map (\<lambda>c. if CHR ''A'' \<le> c \<and> c \<le> CHR ''Z'' then char_of (of_char c + (32::nat)) else c) s"

text \<open>A stand-in for the float formatting, for the examples without windows and doors.\<close>

definition bicimsiz :: "real \<Rightarrow> string" where
  "bicimsiz x = []"

definition ev60 :: ev where
  "ev60 =
     \<lparr>ev_tipi = ''Villa'', kat_sayisi = 1, cati_tipi = ''Besik'', cati_egim_acisi = 60,
      oda_listesi =
        [\<lparr>oda_adi = ''Salon'', oda_uzunluk = 10, oda_genislik = 10, oda_yukseklik = 2.5,
          zemin_kaplama_tipi = ''Laminat Parke'', duvar_kaplama_tipi = ''Boya''\<rparr>],
      pencere_listesi = [], kapi_listesi = []\<rparr>"

definition ev_dar :: ev where
  "ev_dar =
     \<lparr>ev_tipi = ''Depo'', kat_sayisi = 1, cati_tipi = Duz, cati_egim_acisi = 0,
      oda_listesi =
        [\<lparr>oda_adi = ''Depo'', oda_uzunluk = 1.5, oda_genislik = 1, oda_yukseklik = 2,
          zemin_kaplama_tipi = ''Laminat Parke'', duvar_kaplama_tipi = ''Boya''\<rparr>],
      pencere_listesi = [\<lparr>pencere_genislik = 3, pencere_yukseklik = 2, pencere_adet = 1\<rparr>],
      kapi_listesi =
        [\<lparr>kapi_adi = ''Arka'', kapi_genislik = 3, kapi_yukseklik = 2, kapi_adet = 1\<rparr>]\<rparr>"

definition ana_kapi :: kapi where
  "ana_kapi =
     \<lparr>kapi_adi = ''Ana Giri'' @ [CHR 0xC5, CHR 0x9F] @ '' Kap'' @ [CHR 0xC4, CHR 0xB1]
                  @ ''s'' @ [CHR 0xC4, CHR 0xB1],
      kapi_genislik = 1, kapi_yukseklik = 2.1, kapi_adet = 1\<rparr>"

definition main_entrance :: kapi where
  "main_entrance =
     \<lparr>kapi_adi = ''Main Entrance'', kapi_genislik = 1, kapi_yukseklik = 2.1, kapi_adet = 1\<rparr>"

definition ornek_bilgi :: "nat \<Rightarrow> malzeme_bilgisi" where
  "ornek_bilgi n =
     \<lparr>malzeme = ornek_malzemeler ! n,
      fiyat = Some (ornek_fiyatlar ''2024-01-01'' ! n),
      sarfiyat = (if n = 4 then ornek_sarfiyatlar else [])\<rparr>"

definition banyo :: oda where
  "banyo = \<lparr>oda_adi = ''Banyo'', oda_uzunluk = 3, oda_genislik = 3, oda_yukseklik = 2.5,
             zemin_kaplama_tipi = ''Fayans'', duvar_kaplama_tipi = ''Boya''\<rparr>"

definition salon :: oda where
  "salon = \<lparr>oda_adi = ''Salon'', oda_uzunluk = 5, oda_genislik = 4, oda_yukseklik = 2.5,
             zemin_kaplama_tipi = ''Laminat Parke'', duvar_kaplama_tipi = ''Boya''\<rparr>"

text \<open>
  The sample catalog with the paint rate given per kilogram and a coat count of 0 for
  the walls of the living room.
\<close>

definition sifir_kat_veritabani :: veritabani where
  "sifir_kat_veritabani =
     ornek_veritabani
       \<lparr>Sarfiyatlar :=
          [\<lparr>sarfiyat_id = 1, sarfiyat_malzeme_id = 5, uygulama_turu = ''Duvar'',
            sarfiyat_degeri = 0.15, sarfiyat_birimi = ''kg/m2''\<rparr>],
        UygulamaDetaylari :=
          [\<lparr>detay_id = 1, oda_tipi = ''Salon'', uygulama_alani = ''Duvar'',
            ek_ozellikler = Sozluk [''kat_sayisi'' \<mapsto> 0]\<rparr>]\<rparr>"


definition ev_boyali :: ev where
  "ev_boyali =
     \<lparr>ev_tipi = ''Ev'', kat_sayisi = 1, cati_tipi = Duz, cati_egim_acisi = 0,
      oda_listesi = [salon], pencere_listesi = [], kapi_listesi = []\<rparr>"

definition bos_ev :: ev where
  "bos_ev =
     \<lparr>ev_tipi = ''Ev'', kat_sayisi = 1, cati_tipi = Duz, cati_egim_acisi = 0,
      oda_listesi = [], pencere_listesi = [], kapi_listesi = []\<rparr>"

definition ornek_satirlar :: "(string \<times> ihtiyac) list" where
  "ornek_satirlar =
     [(Duvar_Paneli_Toplam,
       \<lparr>net_miktar = Sayi 45, gerekli_miktar = Sayi 47.25, birim_olcu = ''m2'',
        birim_fiyat = 120, maliyet = 5670\<rparr>),
      (Cati_Kaplama_Toplam,
       \<lparr>net_miktar = Sayi 20, gerekli_miktar = Sayi 21.4, birim_olcu = ''m2'',
        birim_fiyat = 150, maliyet = 3210\<rparr>),
      (''Salon Zemin (Laminat Parke)'',
       \<lparr>net_miktar = Sayi 20, gerekli_miktar = Sayi 21.4, birim_olcu = ''m2'',
        birim_fiyat = 80, maliyet = 1712\<rparr>),
      (''Salon Duvar (Boya)'',
       \<lparr>net_miktar = Sayi 45, gerekli_miktar = Sayi 14.175, birim_olcu = ''litre'',
        birim_fiyat = 50, maliyet = 708.75\<rparr>),
      (Tesisat, tesisat_satiri 1801.425)]"

definition bozuk_veritabani :: veritabani where
  "bozuk_veritabani =
     ornek_veritabani\<lparr>UygulamaDetaylari :=
       [\<lparr>detay_id = 1, oda_tipi = ''Banyo'', uygulama_alani = ''Zemin'', ek_ozellikler = Bozuk\<rparr>]\<rparr>"

definition oransiz_veritabani :: veritabani where
  "oransiz_veritabani =
     \<lparr>Malzemeler = [ornek_malzemeler ! 4], Fiyatlar = [ornek_fiyatlar ''2024-01-01'' ! 4],
      Sarfiyatlar = [], UygulamaDetaylari = []\<rparr>"

definition ev_egik :: ev where
  "ev_egik =
     \<lparr>ev_tipi = ''Ev'', kat_sayisi = 1, cati_tipi = ''Besik'', cati_egim_acisi = 120,
      oda_listesi = [salon], pencere_listesi = [], kapi_listesi = []\<rparr>"

definition egik_satirlar :: "(string \<times> ihtiyac) list" where
  "egik_satirlar =
     [(Duvar_Paneli_Toplam,
       \<lparr>net_miktar = Sayi 45, gerekli_miktar = Sayi 47.25, birim_olcu = ''m2'',
        birim_fiyat = 120, maliyet = 5670\<rparr>),
      (Cati_Kaplama_Toplam,
       \<lparr>net_miktar = Sayi (- 40), gerekli_miktar = Sayi (- 42.8), birim_olcu = ''m2'',
        birim_fiyat = 150, maliyet = - 6420\<rparr>),
      (''Salon Zemin (Laminat Parke)'',
       \<lparr>net_miktar = Sayi 20, gerekli_miktar = Sayi 21.4, birim_olcu = ''m2'',
        birim_fiyat = 80, maliyet = 1712\<rparr>),
      (''Salon Duvar (Boya)'',
       \<lparr>net_miktar = Sayi 45, gerekli_miktar = Sayi 14.175, birim_olcu = ''litre'',
        birim_fiyat = 50, maliyet = 708.75\<rparr>),
      (Tesisat, tesisat_satiri 356.925)]"


section \<open>Properties\<close>

subsection \<open>Auxiliary facts\<close>

lemma dict_set_map_of: "map_of (dict_set k v kvs) k = Some v"
  by (induction kvs) auto

lemma dict_set_map_of_other: "k' \<noteq> k \<Longrightarrow> map_of (dict_set k v kvs) k' = map_of kvs k'"
  by (induction kvs) auto

lemma oda_dongusu_taban:
  "fst (snd (oda_dongusu ods (al, t, b))) = t + sum_list (map zemin_alani ods)"
  by (induction ods arbitrary: al t b) simp_all


lemma oda_dongusu_alanlar:
  "fst (oda_dongusu ods (al, t, b)) n =
     (case filter (\<lambda>r. oda_adi r = n) ods of
        [] \<Rightarrow> al n
      | r # rs \<Rightarrow> Some \<lparr>zemin = zemin_alani (last (r # rs)), duvar = duvar_alani (last (r # rs))\<rparr>)"
proof (induction ods arbitrary: al t b)
  case Nil
  show ?case by simp
next
  case (Cons od ods)
  show ?case
    by (simp add: Cons.IH split: list.splits)
qed

lemma alan_hesapla_taban:
  "toplam_taban_alani (alan_hesapla e) = sum_list (map zemin_alani (oda_listesi e))"
  using oda_dongusu_taban [of "oda_listesi e" Map.empty 0 0]
  by (auto simp add: alan_hesapla_def Let_def split: prod.splits)


lemma alan_hesapla_alanlar:
  "oda_alanlari (alan_hesapla e) n =
     (case filter (\<lambda>r. oda_adi r = n) (oda_listesi e) of
        [] \<Rightarrow> None
      | r # rs \<Rightarrow> Some \<lparr>zemin = zemin_alani (last (r # rs)), duvar = duvar_alani (last (r # rs))\<rparr>)"
  using oda_dongusu_alanlar [of "oda_listesi e" Map.empty 0 0 n]
  by (auto simp add: alan_hesapla_def Let_def split: prod.splits)

lemma alan_hesapla_cati_taban:
  "cati_alani_taban (alan_hesapla e) =
     (if kat_sayisi e > 0 then toplam_taban_alani (alan_hesapla e) / real_of_int (kat_sayisi e)
      else toplam_taban_alani (alan_hesapla e))"
  by (auto simp add: alan_hesapla_def Let_def split: prod.splits)

lemma alan_hesapla_cati:
  "cati_alani (alan_hesapla e) =
     cati_alani_hesapla (cati_tipi e) (cati_egim_acisi e) (cati_alani_taban (alan_hesapla e))"
  by (auto simp add: alan_hesapla_def Let_def split: prod.splits)

lemma ornek_duvar_paneli:
  "fiyatli_malzeme ornek_veritabani Duvar_Paneli
     = Some (\<lparr>malzeme = hd ornek_malzemeler,
               fiyat = Some (hd (ornek_fiyatlar ''2024-01-01'')), sarfiyat = []\<rparr>,
             hd (ornek_fiyatlar ''2024-01-01''))"
  by (simp add: fiyatli_malzeme_def malzeme_bilgisi_getir_def ornek_veritabani_def
      ornek_malzemeler_def ornek_fiyatlar_def ornek_sarfiyatlar_def Duvar_Paneli_def)

lemma ornek_fiyatli:
  "fiyatli_malzeme ornek_veritabani ''Fayans'' = Some (ornek_bilgi 2, ornek_fiyatlar ''2024-01-01'' ! 2)"
  "fiyatli_malzeme ornek_veritabani ''Laminat Parke'' = Some (ornek_bilgi 3, ornek_fiyatlar ''2024-01-01'' ! 3)"
  "fiyatli_malzeme ornek_veritabani ''Boya'' = Some (ornek_bilgi 4, ornek_fiyatlar ''2024-01-01'' ! 4)"
  by (simp_all add: fiyatli_malzeme_def malzeme_bilgisi_getir_def ornek_veritabani_def
      ornek_malzemeler_def ornek_fiyatlar_def ornek_sarfiyatlar_def ornek_bilgi_def)

lemma ornek_boya_sarfiyat:
  "filter (\<lambda>s. uygulama_turu s = Duvar) (sarfiyat (ornek_bilgi 4)) = [hd ornek_sarfiyatlar]"
  by (simp add: ornek_bilgi_def ornek_sarfiyatlar_def Duvar_def)

lemma dict_set_map_fst:
  "map fst (dict_set k v kvs) = (if k \<in> fst ` set kvs then map fst kvs else map fst kvs @ [k])"
  by (induction kvs) (auto split: if_splits)

lemma dict_set_distinct:
  "distinct (map fst kvs) \<Longrightarrow> distinct (map fst (dict_set k v kvs))"
  by (simp add: dict_set_map_fst)

lemma dict_set_list_all:
  "list_all P kvs \<Longrightarrow> P (k, v) \<Longrightarrow> list_all P (dict_set k v kvs)"
  by (induction kvs) auto

lemma duzenli_satir_yaz: "duzenli st \<Longrightarrow> carpim l \<Longrightarrow> duzenli (satir_yaz k l st)"
  by (simp add: duzenli_def satir_yaz_def dict_set_distinct dict_set_list_all)

lemma duzenli_satir_ekle: "duzenli st \<Longrightarrow> carpim l \<Longrightarrow> duzenli (satir_ekle k l st)"
  using duzenli_satir_yaz [of st l k]
  by (simp add: satir_ekle_def duzenli_def)

lemma duzenli_toplama_ekle: "toplama_ekle st = Inr st' \<Longrightarrow> duzenli st \<Longrightarrow> duzenli st'"
  by (auto simp add: toplama_ekle_def duzenli_def split: option.splits)

lemma duzenli_baslangic: "duzenli baslangic"
  by (simp add: duzenli_def baslangic_def)

lemma duzenli_duvar_panelleri: "duzenli st \<Longrightarrow> duzenli (duvar_panelleri db g st)"
  by (auto simp add: duvar_panelleri_def Let_def carpim_def intro!: duzenli_satir_ekle
      split: option.splits)

lemma duzenli_cati_kaplama: "duzenli st \<Longrightarrow> duzenli (cati_kaplama db g st)"
  by (auto simp add: cati_kaplama_def Let_def carpim_def intro!: duzenli_satir_ekle
      split: option.splits)

lemma duzenli_zemin_kaplama: "duzenli st \<Longrightarrow> duzenli (zemin_kaplama db od a st)"
  by (auto simp add: zemin_kaplama_def Let_def carpim_def intro!: duzenli_satir_ekle
      split: option.splits)

lemma duzenli_duvar_kaplama:
  "duvar_kaplama db od a st = Inr st' \<Longrightarrow> duzenli st \<Longrightarrow> duzenli st'"
  by (auto simp add: duvar_kaplama_def Let_def carpim_def
      intro!: duzenli_satir_ekle duzenli_satir_yaz
      elim!: duzenli_toplama_ekle split: option.splits list.splits if_splits)

lemma duzenli_oda_adimi:
  "oda_adimi db g od st = Inr st' \<Longrightarrow> duzenli st \<Longrightarrow> duzenli st'"
  by (auto simp add: oda_adimi_def split: option.splits
      intro: duzenli_duvar_kaplama duzenli_zemin_kaplama)

lemma duzenli_odalar:
  "odalar db g ods st = Inr st' \<Longrightarrow> duzenli st \<Longrightarrow> duzenli st'"
proof (induction ods arbitrary: st)
  case Nil
  then show ?case by simp
next
  case (Cons od ods)
  then show ?case
    by (auto split: sum.splits dest: duzenli_oda_adimi)
qed

lemma duzenli_pencere_adimi: "duzenli st \<Longrightarrow> duzenli (pencere_adimi sf db i p st)"
  by (auto simp add: pencere_adimi_def Let_def carpim_def intro!: duzenli_satir_ekle
      split: option.splits)

lemma duzenli_pencereler: "duzenli st \<Longrightarrow> duzenli (pencereler sf db i ps st)"
  by (induction ps arbitrary: i st) (simp_all add: duzenli_pencere_adimi)

lemma duzenli_kapi_adimi: "duzenli st \<Longrightarrow> duzenli (kapi_adimi lower sf db i k st)"
  by (auto simp add: kapi_adimi_def Let_def carpim_def intro!: duzenli_satir_ekle
      split: option.splits)

lemma duzenli_kapilar: "duzenli st \<Longrightarrow> duzenli (kapilar lower sf db i ks st)"
  by (induction ks arbitrary: i st) (simp_all add: duzenli_kapi_adimi)

lemma duzenli_ara_durum: "ara_durum lower sf db e = Inr st \<Longrightarrow> duzenli st"
  by (auto simp add: ara_durum_def Let_def split: sum.splits
      intro!: duzenli_kapilar duzenli_pencereler
      dest!: duzenli_odalar [OF _ duzenli_cati_kaplama [OF duzenli_duvar_panelleri [OF duzenli_baslangic]]])

lemma dict_set_mem:
  assumes "(k', l) \<in> set (dict_set k v kvs)" and "distinct (map fst kvs)"
  shows "(k' = k \<and> l = v) \<or> (k' \<noteq> k \<and> (k', l) \<in> set kvs)"
proof -
  from assms have m: "map_of (dict_set k v kvs) k' = Some l"
    by (simp add: dict_set_distinct)
  show ?thesis
  proof (cases "k' = k")
    case True
    with m show ?thesis by (simp add: dict_set_map_of)
  next
    case False
    with m have "map_of kvs k' = Some l" by (simp add: dict_set_map_of_other)
    with False show ?thesis by (auto dest: map_of_SomeD)
  qed
qed

lemmas ornek_defs = fiyatli_malzeme_def malzeme_bilgisi_getir_def ornek_veritabani_def
  ornek_malzemeler_def ornek_fiyatlar_def ornek_sarfiyatlar_def ornek_detaylar_def
  ek_ozellikler_getir_def

lemma ornek_geometri: "alan_hesapla ev_boyali =
   \<lparr>toplam_pencere_alani = 0, toplam_kapi_alani = 0,
    oda_alanlari = [''Salon'' \<mapsto> \<lparr>zemin = 20, duvar = 45\<rparr>],
    toplam_taban_alani = 20, toplam_duvar_alani_brut = 45,
    cati_alani_taban = 20, cati_alani = 20\<rparr>"
  by (simp add: alan_hesapla_def ev_boyali_def salon_def zemin_alani_def duvar_alani_def
      cati_alani_hesapla_def)

lemma ev_boyali_listeler: "oda_listesi ev_boyali = [salon]" "pencere_listesi ev_boyali = []" "kapi_listesi ev_boyali = []"
  by (simp_all add: ev_boyali_def)

lemma ornek_adim12: "cati_kaplama ornek_veritabani (alan_hesapla ev_boyali)
     (duvar_panelleri ornek_veritabani (alan_hesapla ev_boyali) baslangic) =
   \<lparr>malzeme_ihtiyaclari =
      [(Duvar_Paneli_Toplam, \<lparr>net_miktar = Sayi 45, gerekli_miktar = Sayi 47.25, birim_olcu = ''m2'', birim_fiyat = 120, maliyet = 5670\<rparr>),
       (Cati_Kaplama_Toplam, \<lparr>net_miktar = Sayi 20, gerekli_miktar = Sayi 21.4, birim_olcu = ''m2'', birim_fiyat = 150, maliyet = 3210\<rparr>)],
     toplam_maliyet_temp = 8880, maliyet_yerel = Some 3210\<rparr>"
  by (simp add: ornek_geometri duvar_panelleri_def cati_kaplama_def net_duvar_alani_paneller_icin_def
      ornek_defs satir_ekle_def satir_yaz_def baslangic_def Let_def
      Duvar_Paneli_def Cati_Paneli_def Duvar_Paneli_Toplam_def Cati_Kaplama_Toplam_def)

lemma ornek_adim3: "odalar ornek_veritabani (alan_hesapla ev_boyali) [salon]
     (cati_kaplama ornek_veritabani (alan_hesapla ev_boyali)
        (duvar_panelleri ornek_veritabani (alan_hesapla ev_boyali) baslangic)) =
   Inr \<lparr>malzeme_ihtiyaclari =
      [(Duvar_Paneli_Toplam, \<lparr>net_miktar = Sayi 45, gerekli_miktar = Sayi 47.25, birim_olcu = ''m2'', birim_fiyat = 120, maliyet = 5670\<rparr>),
       (Cati_Kaplama_Toplam, \<lparr>net_miktar = Sayi 20, gerekli_miktar = Sayi 21.4, birim_olcu = ''m2'', birim_fiyat = 150, maliyet = 3210\<rparr>),
       (''Salon Zemin (Laminat Parke)'', \<lparr>net_miktar = Sayi 20, gerekli_miktar = Sayi 21.4, birim_olcu = ''m2'', birim_fiyat = 80, maliyet = 1712\<rparr>),
       (''Salon Duvar (Boya)'', \<lparr>net_miktar = Sayi 45, gerekli_miktar = Sayi 14.175, birim_olcu = ''litre'', birim_fiyat = 50, maliyet = 708.75\<rparr>)],
     toplam_maliyet_temp = 12009.5, maliyet_yerel = Some 708.75\<rparr>"
  unfolding ornek_adim12
  by (simp add: ornek_geometri oda_adimi_def zemin_kaplama_def duvar_kaplama_def duvar_alani_net_def
      ornek_defs salon_def satir_ekle_def satir_yaz_def toplama_ekle_def Let_def
      oda_etiketi_def Boya_def Duvar_def Zemin_def Fayans_def
      Duvar_Paneli_Toplam_def Cati_Kaplama_Toplam_def)

lemma ornek_calisma:
  "malzeme_ihtiyacini_hesapla ascii_lower bicimsiz ornek_veritabani ev_boyali
     = Inr (ornek_satirlar, 13810.925)"
  unfolding malzeme_ihtiyacini_hesapla_def ara_durum_def Let_def ev_boyali_listeler ornek_adim3
  by (simp add: tesisat_def tesisat_satiri_def ornek_satirlar_def
      Duvar_Paneli_Toplam_def Cati_Kaplama_Toplam_def Tesisat_def)

lemma bos_fiyatli: "fiyatli_malzeme bos_veritabani ad = None"
  by (simp add: fiyatli_malzeme_def malzeme_bilgisi_getir_def bos_veritabani_def)

lemma fiyatli_malzeme_None:
  "fiyatli_malzeme db ad = None \<longleftrightarrow>
     (case malzeme_bilgisi_getir db ad of None \<Rightarrow> True | Some info \<Rightarrow> fiyat info = None)"
  by (simp add: fiyatli_malzeme_def split: option.splits)

lemma duvar_kaplama_Inr:
  "\<not> sarfiyatsiz_boya db od \<Longrightarrow> \<exists>st'. duvar_kaplama db od a st = Inr st'"
  by (auto simp add: sarfiyatsiz_boya_def duvar_kaplama_def Let_def toplama_ekle_def
      satir_ekle_def satir_yaz_def split: option.splits list.splits)

lemma odalar_Inr:
  "list_all (\<lambda>od. \<not> sarfiyatsiz_boya db od \<and> oda_alanlari g (oda_adi od) \<noteq> None) ods
     \<Longrightarrow> \<exists>st'. odalar db g ods st = Inr st'"
proof (induction ods arbitrary: st)
  case Nil
  show ?case by simp
next
  case (Cons od ods)
  from Cons.prems obtain a where a: "oda_alanlari g (oda_adi od) = Some a"
    and s: "\<not> sarfiyatsiz_boya db od"
    and rest: "list_all (\<lambda>od. \<not> sarfiyatsiz_boya db od \<and> oda_alanlari g (oda_adi od) \<noteq> None) ods"
    by auto
  from duvar_kaplama_Inr [OF s] obtain st1 where
    "duvar_kaplama db od (duvar_alani_net g (duvar a)) (zemin_kaplama db od (zemin a) st) = Inr st1"
    by blast
  with a have "oda_adimi db g od st = Inr st1"
    by (simp add: oda_adimi_def)
  with Cons.IH [OF rest, of st1] show ?case by simp
qed

lemma alan_hesapla_alanlar_var:
  "od \<in> set (oda_listesi e) \<Longrightarrow> \<exists>a. oda_alanlari (alan_hesapla e) (oda_adi od) = Some a"
proof -
  assume "od \<in> set (oda_listesi e)"
  then have "filter (\<lambda>r. oda_adi r = oda_adi od) (oda_listesi e) \<noteq> []"
    by (auto simp add: filter_empty_conv)
  then show ?thesis
    by (simp add: alan_hesapla_alanlar split: list.splits)
qed

lemma hesapla_Inr:
  assumes "list_all (\<lambda>od. \<not> sarfiyatsiz_boya db od) (oda_listesi e)"
  shows "\<exists>m t. malzeme_ihtiyacini_hesapla lower sf db e = Inr (m, t)"
proof -
  from assms have
    "list_all (\<lambda>od. \<not> sarfiyatsiz_boya db od \<and> oda_alanlari (alan_hesapla e) (oda_adi od) \<noteq> None)
       (oda_listesi e)"
    by (simp add: list_all_iff alan_hesapla_alanlar_var)
  from odalar_Inr [OF this] obtain st' where
    "odalar db (alan_hesapla e) (oda_listesi e)
       (cati_kaplama db (alan_hesapla e) (duvar_panelleri db (alan_hesapla e) baslangic)) = Inr st'"
    by blast
  then show ?thesis
    by (simp add: malzeme_ihtiyacini_hesapla_def ara_durum_def Let_def)
qed

lemma bos_ev_calisma:
  assumes "oda_listesi e = []" and "pencere_listesi e = []" and "kapi_listesi e = []"
      and "fiyatli_malzeme db Duvar_Paneli = None" and "fiyatli_malzeme db Cati_Paneli = None"
  shows "malzeme_ihtiyacini_hesapla lower sf db e = Inr ([(Tesisat, tesisat_satiri 0)], 0)"
  using assms
  by (simp add: malzeme_ihtiyacini_hesapla_def ara_durum_def Let_def duvar_panelleri_def
      cati_kaplama_def tesisat_def tesisat_satiri_def baslangic_def)

lemma bos_katalog_calisma:
  "malzeme_ihtiyacini_hesapla ascii_lower bicimsiz bos_veritabani ev_dar
     = Inr ([(Tesisat, tesisat_satiri 0)], 0)"
proof -
  have l: "oda_listesi ev_dar = [hd (oda_listesi ev_dar)]"
    "pencere_listesi ev_dar = [hd (pencere_listesi ev_dar)]"
    "kapi_listesi ev_dar = [hd (kapi_listesi ev_dar)]"
    by (simp_all add: ev_dar_def)
  have "\<exists>a. oda_alanlari (alan_hesapla ev_dar) (oda_adi (hd (oda_listesi ev_dar))) = Some a"
    by (rule alan_hesapla_alanlar_var) (simp add: ev_dar_def)
  then obtain x where x: "oda_alanlari (alan_hesapla ev_dar) (oda_adi (hd (oda_listesi ev_dar))) = Some x"
    by blast
  have "ara_durum ascii_lower bicimsiz bos_veritabani ev_dar = Inr baslangic"
    unfolding ara_durum_def Let_def
    by (subst l(1), subst l(2), subst l(3))
       (simp add: x oda_adimi_def duvar_panelleri_def cati_kaplama_def zemin_kaplama_def
          duvar_kaplama_def pencere_adimi_def kapi_adimi_def bos_fiyatli)
  then show ?thesis
    by (simp add: malzeme_ihtiyacini_hesapla_def tesisat_def tesisat_satiri_def baslangic_def)
qed

lemma oransiz_calisma:
  "malzeme_ihtiyacini_hesapla ascii_lower bicimsiz oransiz_veritabani ev_boyali
     = Inl UnboundLocalError"
proof -
  have f: "fiyatli_malzeme oransiz_veritabani Duvar_Paneli = None"
    "fiyatli_malzeme oransiz_veritabani Cati_Paneli = None"
    "fiyatli_malzeme oransiz_veritabani ''Laminat Parke'' = None"
    "fiyatli_malzeme oransiz_veritabani ''Boya''
       = Some (\<lparr>malzeme = ornek_malzemeler ! 4,
                 fiyat = Some (ornek_fiyatlar ''2024-01-01'' ! 4), sarfiyat = []\<rparr>,
               ornek_fiyatlar ''2024-01-01'' ! 4)"
    by (simp_all add: fiyatli_malzeme_def malzeme_bilgisi_getir_def oransiz_veritabani_def
        ornek_malzemeler_def ornek_fiyatlar_def Duvar_Paneli_def Cati_Paneli_def)
  have b: "malzeme_adi (ornek_malzemeler ! 4) = Boya"
    by (simp add: ornek_malzemeler_def Boya_def)
  show ?thesis
    unfolding malzeme_ihtiyacini_hesapla_def ara_durum_def Let_def ev_boyali_listeler
    by (simp add: ornek_geometri oda_adimi_def duvar_panelleri_def cati_kaplama_def
        zemin_kaplama_def duvar_kaplama_def f b salon_def toplama_ekle_def baslangic_def)
qed

lemma dict_set_append: "k \<notin> fst ` set kvs \<Longrightarrow> dict_set k v kvs = kvs @ [(k, v)]"
  by (induction kvs) auto

lemma oda_etiketi_Zemin_taze: "oda_etiketi x Zemin y \<noteq> Tesisat"
proof
  assume "oda_etiketi x Zemin y = Tesisat"
  then have "Tesisat = x @ '' Zemin ('' @ (y @ '')'')"
    by (simp add: oda_etiketi_def Zemin_def)
  then have "sublist '' Zemin ('' Tesisat"
    unfolding sublist_def by blast
  moreover have "\<not> sublist '' Zemin ('' Tesisat"
    by code_simp
  ultimately show False by simp
qed

lemma oda_etiketi_Duvar_taze: "oda_etiketi x Duvar y \<noteq> Tesisat"
proof
  assume "oda_etiketi x Duvar y = Tesisat"
  then have "Tesisat = x @ '' Duvar ('' @ (y @ '')'')"
    by (simp add: oda_etiketi_def Duvar_def)
  then have "sublist '' Duvar ('' Tesisat"
    unfolding sublist_def by blast
  moreover have "\<not> sublist '' Duvar ('' Tesisat"
    by code_simp
  ultimately show False by simp
qed

lemma sabit_etiketler_taze:
  "Duvar_Paneli_Toplam \<noteq> Tesisat" "Cati_Kaplama_Toplam \<noteq> Tesisat"
  "pencere_etiketi sf i p \<noteq> Tesisat" "kapi_etiketi sf i k \<noteq> Tesisat"
  by (simp_all add: Duvar_Paneli_Toplam_def Cati_Kaplama_Toplam_def Tesisat_def
      pencere_etiketi_def kapi_etiketi_def)

lemma tesisatsiz_satir_yaz: "tesisatsiz st \<Longrightarrow> k \<noteq> Tesisat \<Longrightarrow> tesisatsiz (satir_yaz k l st)"
  using dict_set_map_fst [of k l "malzeme_ihtiyaclari st"]
  by (auto simp add: tesisatsiz_def satir_yaz_def simp flip: set_map split: if_splits)

lemma tesisatsiz_satir_ekle: "tesisatsiz st \<Longrightarrow> k \<noteq> Tesisat \<Longrightarrow> tesisatsiz (satir_ekle k l st)"
  using tesisatsiz_satir_yaz [of st k l]
  by (simp add: satir_ekle_def tesisatsiz_def)

lemma tesisatsiz_toplama_ekle: "toplama_ekle st = Inr st' \<Longrightarrow> tesisatsiz st \<Longrightarrow> tesisatsiz st'"
  by (auto simp add: toplama_ekle_def tesisatsiz_def split: option.splits)

lemma tesisatsiz_baslangic: "tesisatsiz baslangic"
  by (simp add: tesisatsiz_def baslangic_def)

lemma tesisatsiz_duvar_panelleri: "tesisatsiz st \<Longrightarrow> tesisatsiz (duvar_panelleri db g st)"
  by (auto simp add: duvar_panelleri_def Let_def sabit_etiketler_taze
      intro!: tesisatsiz_satir_ekle split: option.splits)

lemma tesisatsiz_cati_kaplama: "tesisatsiz st \<Longrightarrow> tesisatsiz (cati_kaplama db g st)"
  by (auto simp add: cati_kaplama_def Let_def sabit_etiketler_taze
      intro!: tesisatsiz_satir_ekle split: option.splits)

lemma tesisatsiz_zemin_kaplama: "tesisatsiz st \<Longrightarrow> tesisatsiz (zemin_kaplama db od a st)"
  by (auto simp add: zemin_kaplama_def Let_def oda_etiketi_Zemin_taze
      intro!: tesisatsiz_satir_ekle split: option.splits)

lemma tesisatsiz_duvar_kaplama:
  "duvar_kaplama db od a st = Inr st' \<Longrightarrow> tesisatsiz st \<Longrightarrow> tesisatsiz st'"
  by (auto simp add: duvar_kaplama_def Let_def oda_etiketi_Duvar_taze
      intro!: tesisatsiz_satir_ekle tesisatsiz_satir_yaz
      elim!: tesisatsiz_toplama_ekle split: option.splits list.splits if_splits)

lemma tesisatsiz_oda_adimi:
  "oda_adimi db g od st = Inr st' \<Longrightarrow> tesisatsiz st \<Longrightarrow> tesisatsiz st'"
  by (auto simp add: oda_adimi_def split: option.splits
      intro: tesisatsiz_duvar_kaplama tesisatsiz_zemin_kaplama)

lemma tesisatsiz_odalar:
  "odalar db g ods st = Inr st' \<Longrightarrow> tesisatsiz st \<Longrightarrow> tesisatsiz st'"
proof (induction ods arbitrary: st)
  case Nil
  then show ?case by simp
next
  case (Cons od ods)
  then show ?case
    by (auto split: sum.splits dest: tesisatsiz_oda_adimi)
qed

lemma tesisatsiz_pencereler: "tesisatsiz st \<Longrightarrow> tesisatsiz (pencereler sf db i ps st)"
proof (induction ps arbitrary: i st)
  case Nil
  then show ?case by simp
next
  case (Cons p ps)
  have "tesisatsiz (pencere_adimi sf db i p st)"
    using Cons.prems
    by (auto simp add: pencere_adimi_def Let_def sabit_etiketler_taze
        intro!: tesisatsiz_satir_ekle split: option.splits)
  then show ?case by (simp add: Cons.IH)
qed

lemma tesisatsiz_kapilar: "tesisatsiz st \<Longrightarrow> tesisatsiz (kapilar lower sf db i ks st)"
proof (induction ks arbitrary: i st)
  case Nil
  then show ?case by simp
next
  case (Cons k ks)
  have "tesisatsiz (kapi_adimi lower sf db i k st)"
    using Cons.prems
    by (auto simp add: kapi_adimi_def Let_def sabit_etiketler_taze
        intro!: tesisatsiz_satir_ekle split: option.splits)
  then show ?case by (simp add: Cons.IH)
qed

lemma tesisatsiz_ara_durum: "ara_durum lower sf db e = Inr st \<Longrightarrow> tesisatsiz st"
  by (auto simp add: ara_durum_def Let_def split: sum.splits
      intro!: tesisatsiz_kapilar tesisatsiz_pencereler
      dest!: tesisatsiz_odalar [OF _ tesisatsiz_cati_kaplama
               [OF tesisatsiz_duvar_panelleri [OF tesisatsiz_baslangic]]])

text \<open>
  The shape of every returned result: the lines of steps 1 to 5 followed by the one
  overhead line, whose cost is 0.15 times the running total of those steps; the grand
  total is that running total plus the overhead.
\<close>

lemma sonuc_bicimi:
  assumes "malzeme_ihtiyacini_hesapla lower sf db e = Inr (m, t)"
  shows "\<exists>st. ara_durum lower sf db e = Inr st
           \<and> Tesisat \<notin> fst ` set (malzeme_ihtiyaclari st)
           \<and> m = malzeme_ihtiyaclari st @ [(Tesisat, tesisat_satiri (toplam_maliyet_temp st * 0.15))]
           \<and> t = toplam_maliyet_temp st + toplam_maliyet_temp st * 0.15"
proof -
  from assms obtain st where st: "ara_durum lower sf db e = Inr st"
    and m: "m = malzeme_ihtiyaclari (tesisat st)" and t: "t = toplam_maliyet_temp (tesisat st)"
    by (auto simp add: malzeme_ihtiyacini_hesapla_def Let_def split: sum.splits)
  from st have f: "Tesisat \<notin> fst ` set (malzeme_ihtiyaclari st)"
    using tesisatsiz_ara_durum [of lower sf db e st] by (simp add: tesisatsiz_def)
  with m t have "m = malzeme_ihtiyaclari st @ [(Tesisat, tesisat_satiri (toplam_maliyet_temp st * 0.15))]"
    "t = toplam_maliyet_temp st + toplam_maliyet_temp st * 0.15"
    by (simp_all add: tesisat_def Let_def dict_set_append tesisat_satiri_def)
  with st f show ?thesis by blast
qed



lemma toplama_ekle_satirlar:
  "toplama_ekle st = Inr st' \<Longrightarrow> malzeme_ihtiyaclari st' = malzeme_ihtiyaclari st"
  by (auto simp add: toplama_ekle_def split: option.splits)

lemma duvar_kaplama_satiri:
  assumes "fiyatli_malzeme db (duvar_kaplama_tipi od) = Some (info, f)"
      and "\<not> sarfiyatsiz_boya db od"
  shows "\<exists>st' l. duvar_kaplama db od n st = Inr st'
           \<and> map_of (malzeme_ihtiyaclari st')
                (oda_etiketi (oda_adi od) Duvar (malzeme_adi (malzeme info))) = Some l
           \<and> net_miktar l = Sayi n"
  using assms
  by (auto simp add: duvar_kaplama_def sarfiyatsiz_boya_def Let_def satir_ekle_def
      satir_yaz_def toplama_ekle_def dict_set_map_of split: list.splits)



lemma oda_adimi_duvar_satiri:
  assumes "oda_alanlari g (oda_adi od) = Some a"
      and "fiyatli_malzeme db (duvar_kaplama_tipi od) = Some (info, f)"
      and "\<not> sarfiyatsiz_boya db od"
  shows "\<exists>st' l. oda_adimi db g od st = Inr st'
           \<and> map_of (malzeme_ihtiyaclari st')
                (oda_etiketi (oda_adi od) Duvar (malzeme_adi (malzeme info))) = Some l
           \<and> net_miktar l = Sayi (duvar_alani_net g (duvar a))"
  using duvar_kaplama_satiri [OF assms(2,3), of "duvar_alani_net g (duvar a)"
      "zemin_kaplama db od (zemin a) st"] assms(1)
  by (simp add: oda_adimi_def)


lemma nn_satir_yaz:
  "netler_negatif_degil st \<Longrightarrow> net_negatif_degil l \<Longrightarrow> netler_negatif_degil (satir_yaz k l st)"
  by (simp add: netler_negatif_degil_def satir_yaz_def dict_set_list_all)

lemma nn_satir_ekle:
  "netler_negatif_degil st \<Longrightarrow> net_negatif_degil l \<Longrightarrow> netler_negatif_degil (satir_ekle k l st)"
  using nn_satir_yaz [of st l k]
  by (simp add: satir_ekle_def netler_negatif_degil_def)

lemma nn_toplama_ekle:
  "toplama_ekle st = Inr st' \<Longrightarrow> netler_negatif_degil st \<Longrightarrow> netler_negatif_degil st'"
  by (auto simp add: toplama_ekle_def netler_negatif_degil_def split: option.splits)

lemma net_duvar_alani_paneller_icin_nn: "0 \<le> net_duvar_alani_paneller_icin g"
  by (simp add: net_duvar_alani_paneller_icin_def Let_def)

lemma duvar_alani_net_nn: "0 \<le> duvar_alani_net g b"
  by (simp add: duvar_alani_net_def Let_def)

lemma nn_duvar_panelleri:
  "netler_negatif_degil st \<Longrightarrow> netler_negatif_degil (duvar_panelleri db g st)"
  by (auto simp add: duvar_panelleri_def Let_def net_negatif_degil_def
      net_duvar_alani_paneller_icin_nn intro!: nn_satir_ekle split: option.splits)

lemma nn_cati_kaplama:
  "netler_negatif_degil st \<Longrightarrow> 0 \<le> cati_alani g \<Longrightarrow> netler_negatif_degil (cati_kaplama db g st)"
  by (auto simp add: cati_kaplama_def Let_def net_negatif_degil_def
      intro!: nn_satir_ekle split: option.splits)

lemma nn_zemin_kaplama:
  "netler_negatif_degil st \<Longrightarrow> 0 \<le> a \<Longrightarrow> netler_negatif_degil (zemin_kaplama db od a st)"
  by (auto simp add: zemin_kaplama_def Let_def net_negatif_degil_def
      intro!: nn_satir_ekle split: option.splits)

lemma nn_duvar_kaplama:
  "duvar_kaplama db od a st = Inr st' \<Longrightarrow> netler_negatif_degil st \<Longrightarrow> 0 \<le> a
     \<Longrightarrow> netler_negatif_degil st'"
  by (auto simp add: duvar_kaplama_def Let_def net_negatif_degil_def
      intro!: nn_satir_ekle nn_satir_yaz
      elim!: nn_toplama_ekle split: option.splits list.splits if_splits)

lemma nn_oda_adimi:
  assumes "oda_adimi db g od st = Inr st'" and "netler_negatif_degil st"
      and "\<And>a. oda_alanlari g (oda_adi od) = Some a \<Longrightarrow> 0 \<le> zemin a"
  shows "netler_negatif_degil st'"
proof -
  from assms(1) obtain a where a: "oda_alanlari g (oda_adi od) = Some a"
    and d: "duvar_kaplama db od (duvar_alani_net g (duvar a)) (zemin_kaplama db od (zemin a) st) = Inr st'"
    by (auto simp add: oda_adimi_def split: option.splits)
  from assms(2) assms(3) [OF a] have "netler_negatif_degil (zemin_kaplama db od (zemin a) st)"
    by (rule nn_zemin_kaplama)
  with d show ?thesis
    by (rule nn_duvar_kaplama) (rule duvar_alani_net_nn)
qed

lemma nn_odalar:
  assumes "odalar db g ods st = Inr st'" and "netler_negatif_degil st"
      and "\<And>n a. oda_alanlari g n = Some a \<Longrightarrow> 0 \<le> zemin a"
  shows "netler_negatif_degil st'"
  using assms(1,2)
proof (induction ods arbitrary: st)
  case Nil
  then show ?case by simp
next
  case (Cons od ods)
  from Cons.prems(1) obtain st1 where s: "oda_adimi db g od st = Inr st1"
    and r: "odalar db g ods st1 = Inr st'"
    by (auto split: sum.splits)
  from s Cons.prems(2) have "netler_negatif_degil st1"
    by (rule nn_oda_adimi) (rule assms(3))
  with r show ?case by (rule Cons.IH)
qed

lemma nn_pencereler:
  "netler_negatif_degil st \<Longrightarrow> list_all (\<lambda>p. 0 \<le> pencere_adet p) ps
     \<Longrightarrow> netler_negatif_degil (pencereler sf db i ps st)"
proof (induction ps arbitrary: i st)
  case Nil
  then show ?case by simp
next
  case (Cons p ps)
  from Cons.prems have "netler_negatif_degil (pencere_adimi sf db i p st)"
    by (auto simp add: pencere_adimi_def Let_def net_negatif_degil_def
        intro!: nn_satir_ekle split: option.splits)
  with Cons.prems(2) show ?case by (simp add: Cons.IH)
qed

lemma nn_kapilar:
  "netler_negatif_degil st \<Longrightarrow> list_all (\<lambda>k. 0 \<le> kapi_adet k) ks
     \<Longrightarrow> netler_negatif_degil (kapilar lower sf db i ks st)"
proof (induction ks arbitrary: i st)
  case Nil
  then show ?case by simp
next
  case (Cons k ks)
  from Cons.prems have "netler_negatif_degil (kapi_adimi lower sf db i k st)"
    by (auto simp add: kapi_adimi_def Let_def net_negatif_degil_def
        intro!: nn_satir_ekle split: option.splits)
  with Cons.prems(2) show ?case by (simp add: Cons.IH)
qed

lemma alan_hesapla_zemin_nn:
  assumes "list_all (\<lambda>od. 0 \<le> oda_uzunluk od \<and> 0 \<le> oda_genislik od) (oda_listesi e)"
      and "oda_alanlari (alan_hesapla e) n = Some a"
  shows "0 \<le> zemin a"
proof (cases "filter (\<lambda>r. oda_adi r = n) (oda_listesi e)")
  case Nil
  with assms(2) show ?thesis by (simp add: alan_hesapla_alanlar)
next
  case (Cons r rs)
  then have "last (r # rs) \<in> set (oda_listesi e)"
    by (metis (no_types, lifting) filter_is_subset last_in_set list.distinct(1) subsetD)
  with assms(1) have "0 \<le> zemin_alani (last (r # rs))"
    by (simp add: list_all_iff zemin_alani_def)
  with assms(2) Cons show ?thesis by (auto simp add: alan_hesapla_alanlar)
qed

lemma nn_sonuc:
  assumes "list_all (\<lambda>od. 0 \<le> oda_uzunluk od \<and> 0 \<le> oda_genislik od) (oda_listesi e)"
      and "list_all (\<lambda>p. 0 \<le> pencere_adet p) (pencere_listesi e)"
      and "list_all (\<lambda>k. 0 \<le> kapi_adet k) (kapi_listesi e)"
      and "0 \<le> cati_alani (alan_hesapla e)"
      and "malzeme_ihtiyacini_hesapla lower sf db e = Inr (m, t)"
  shows "list_all (\<lambda>kv. net_negatif_degil (snd kv)) m"
proof -
  let ?g = "alan_hesapla e"
  from assms(5) obtain st3 where
    o: "odalar db ?g (oda_listesi e) (cati_kaplama db ?g (duvar_panelleri db ?g baslangic)) = Inr st3"
    and m: "m = malzeme_ihtiyaclari
                  (tesisat (kapilar lower sf db 0 (kapi_listesi e)
                              (pencereler sf db 0 (pencere_listesi e) st3)))"
    by (auto simp add: malzeme_ihtiyacini_hesapla_def ara_durum_def Let_def split: sum.splits)
  have "netler_negatif_degil baslangic"
    by (simp add: netler_negatif_degil_def baslangic_def)
  then have "netler_negatif_degil (cati_kaplama db ?g (duvar_panelleri db ?g baslangic))"
    by (intro nn_cati_kaplama nn_duvar_panelleri assms(4))
  with o have "netler_negatif_degil st3"
    by (rule nn_odalar) (rule alan_hesapla_zemin_nn [OF assms(1)])
  then have "netler_negatif_degil (kapilar lower sf db 0 (kapi_listesi e)
                              (pencereler sf db 0 (pencere_listesi e) st3))"
    by (intro nn_kapilar nn_pencereler assms(2,3))
  with m show ?thesis
    by (simp add: tesisat_def Let_def netler_negatif_degil_def dict_set_list_all
        net_negatif_degil_def)
qed

lemma egik_geometri:
  "alan_hesapla ev_egik =
     \<lparr>toplam_pencere_alani = 0, toplam_kapi_alani = 0,
      oda_alanlari = [''Salon'' \<mapsto> \<lparr>zemin = 20, duvar = 45\<rparr>],
      toplam_taban_alani = 20, toplam_duvar_alani_brut = 45,
      cati_alani_taban = 20, cati_alani = - 40\<rparr>"
proof -
  have "cos (120 * pi / 180) = - 1 / 2"
    using cos_120 by simp
  then show ?thesis
    by (simp add: alan_hesapla_def ev_egik_def salon_def zemin_alani_def duvar_alani_def
        cati_alani_hesapla_def radians_def Duz_def)
qed

lemma ev_egik_listeler:
  "oda_listesi ev_egik = [salon]" "pencere_listesi ev_egik = []" "kapi_listesi ev_egik = []"
  by (simp_all add: ev_egik_def)

lemma egik_adim12:
  "cati_kaplama ornek_veritabani (alan_hesapla ev_egik)
     (duvar_panelleri ornek_veritabani (alan_hesapla ev_egik) baslangic) =
   \<lparr>malzeme_ihtiyaclari = take 2 egik_satirlar,
     toplam_maliyet_temp = - 750, maliyet_yerel = Some (- 6420)\<rparr>"
  by (simp add: egik_geometri duvar_panelleri_def cati_kaplama_def
      net_duvar_alani_paneller_icin_def ornek_defs satir_ekle_def satir_yaz_def baslangic_def
      Let_def egik_satirlar_def Duvar_Paneli_def Cati_Paneli_def Duvar_Paneli_Toplam_def
      Cati_Kaplama_Toplam_def)

lemma egik_adim3:
  "odalar ornek_veritabani (alan_hesapla ev_egik) [salon]
     (cati_kaplama ornek_veritabani (alan_hesapla ev_egik)
        (duvar_panelleri ornek_veritabani (alan_hesapla ev_egik) baslangic)) =
   Inr \<lparr>malzeme_ihtiyaclari = take 4 egik_satirlar,
         toplam_maliyet_temp = 2379.5, maliyet_yerel = Some 708.75\<rparr>"
  unfolding egik_adim12
  by (simp add: egik_geometri oda_adimi_def zemin_kaplama_def duvar_kaplama_def
      duvar_alani_net_def ornek_defs salon_def satir_ekle_def satir_yaz_def toplama_ekle_def
      Let_def egik_satirlar_def oda_etiketi_def Boya_def Duvar_def Zemin_def Fayans_def
      Duvar_Paneli_Toplam_def Cati_Kaplama_Toplam_def)

lemma egik_calisma:
  "malzeme_ihtiyacini_hesapla ascii_lower bicimsiz ornek_veritabani ev_egik
     = Inr (egik_satirlar, 2736.425)"
  unfolding malzeme_ihtiyacini_hesapla_def ara_durum_def Let_def ev_egik_listeler egik_adim3
  by (simp add: tesisat_def tesisat_satiri_def egik_satirlar_def
      Duvar_Paneli_Toplam_def Cati_Kaplama_Toplam_def Tesisat_def)








subsection \<open>Roof area\<close>

text \<open>
  Claim C9. The roof footprint is the total floor area (the sum of the rooms' floor
  areas) divided by the floor count, and the total floor area itself when the floor
  count is not positive. The roof area is the footprint when the roof type is flat or
  the pitch is not positive; otherwise it is the footprint divided by the cosine of the
  pitch in radians, and twice the footprint when that cosine is below 0.001 in
  magnitude.
\<close>

theorem roof_area:
  "cati_alani_taban (alan_hesapla e) =
     (if kat_sayisi e > 0
      then sum_list (map zemin_alani (oda_listesi e)) / real_of_int (kat_sayisi e)
      else sum_list (map zemin_alani (oda_listesi e)))
   \<and> cati_alani (alan_hesapla e) =
     (if cati_tipi e = Duz \<or> cati_egim_acisi e \<le> 0
      then cati_alani_taban (alan_hesapla e)
      else if \<bar>cos (cati_egim_acisi e * pi / 180)\<bar> < 0.001
           then cati_alani_taban (alan_hesapla e) * 2
           else cati_alani_taban (alan_hesapla e) / cos (cati_egim_acisi e * pi / 180))"
  by (simp add: alan_hesapla_cati_taban alan_hesapla_taban alan_hesapla_cati
      cati_alani_hesapla_def radians_def Let_def)

text \<open>A pitch of 60 degrees over a footprint of 100 gives a roof of 200.\<close>

theorem roof_area_witness:
  "cati_alani_taban (alan_hesapla ev60) = 100 \<and> cati_alani (alan_hesapla ev60) = 200"
  using roof_area [of ev60]
  by (simp add: ev60_def zemin_alani_def Duz_def cos_60)

subsection \<open>Door category\<close>

text \<open>
  Claim C8, as the code has it. A door is of the exterior category exactly when its
  lower-cased name contains the text \<open>ana_giris\<close>, the Turkish words for main
  entrance; every other door is of the interior category. No other text is looked for.
\<close>

theorem door_category:
  "(kategori_kapi lower k = Dis_Kapi \<longleftrightarrow> sublist ana_giris (lower (kapi_adi k)))
   \<and> (kategori_kapi lower k = Ic_Kapi \<longleftrightarrow> \<not> sublist ana_giris (lower (kapi_adi k)))"
  by (simp add: kategori_kapi_def Dis_Kapi_def Ic_Kapi_def)

theorem door_category_witness:
  "kategori_kapi ascii_lower ana_kapi = Dis_Kapi"
proof -
  have "sublist ana_giris (ascii_lower (kapi_adi ana_kapi))"
    by code_simp
  with door_category [of ascii_lower ana_kapi] show ?thesis by simp
qed

text \<open>
  The claim as stated fails: a door named \<^verbatim>\<open>Main Entrance\<close> contains
  \<^verbatim>\<open>main entrance\<close> without regard to case, and is an interior door.
\<close>

theorem door_category_counterexample:
  "sublist ''main entrance'' (ascii_lower (kapi_adi main_entrance))
   \<and> kategori_kapi ascii_lower main_entrance = Ic_Kapi
   \<and> kategori_kapi ascii_lower main_entrance \<noteq> Dis_Kapi"
  by code_simp

subsection \<open>Net areas\<close>

text \<open>
  Claim C5, as the code has it. The net wall area for the panels is the total gross
  wall area less the window and door areas, and zero when that is negative. The net
  wall area of a room is its gross wall area less its share of the openings (its part
  of the total gross wall area; no deduction when that total is zero), and zero when
  that is negative. Both are never negative; the first is the net quantity of the wall
  panel line, and the second is the net quantity of the wall line that the room's step
  writes. The roof area is not clamped: no line of a result has a negative net quantity
  provided that the roof area is not negative and that no room length, room width,
  window count or door count is negative.
\<close>

theorem net_areas_clamped:
  "net_duvar_alani_paneller_icin g =
     max 0 (toplam_duvar_alani_brut g - toplam_pencere_alani g - toplam_kapi_alani g)
   \<and> duvar_alani_net g b =
     max 0 (b - (if toplam_duvar_alani_brut g > 0
                 then b / toplam_duvar_alani_brut g * (toplam_pencere_alani g + toplam_kapi_alani g)
                 else 0))
   \<and> 0 \<le> net_duvar_alani_paneller_icin g \<and> 0 \<le> duvar_alani_net g b
   \<and> (fiyatli_malzeme db Duvar_Paneli = Some (info, f) \<longrightarrow>
        (\<exists>l. map_of (malzeme_ihtiyaclari (duvar_panelleri db g st)) Duvar_Paneli_Toplam = Some l
             \<and> net_miktar l = Sayi (net_duvar_alani_paneller_icin g)))
   \<and> (oda_alanlari g (oda_adi od) = Some a
        \<and> fiyatli_malzeme db (duvar_kaplama_tipi od) = Some (info', f')
        \<and> \<not> sarfiyatsiz_boya db od \<longrightarrow>
        (\<exists>st' l. oda_adimi db g od st = Inr st'
             \<and> map_of (malzeme_ihtiyaclari st')
                  (oda_etiketi (oda_adi od) Duvar (malzeme_adi (malzeme info'))) = Some l
             \<and> net_miktar l = Sayi (duvar_alani_net g (duvar a))))
   \<and> (list_all (\<lambda>od. 0 \<le> oda_uzunluk od \<and> 0 \<le> oda_genislik od) (oda_listesi e)
        \<and> list_all (\<lambda>p. 0 \<le> pencere_adet p) (pencere_listesi e)
        \<and> list_all (\<lambda>k. 0 \<le> kapi_adet k) (kapi_listesi e)
        \<and> 0 \<le> cati_alani (alan_hesapla e)
        \<and> malzeme_ihtiyacini_hesapla lower sf db e = Inr (m, t) \<longrightarrow>
        list_all (\<lambda>kv. net_negatif_degil (snd kv)) m)"
proof -
  have formulas:
    "net_duvar_alani_paneller_icin g =
       max 0 (toplam_duvar_alani_brut g - toplam_pencere_alani g - toplam_kapi_alani g)"
    "duvar_alani_net g b =
       max 0 (b - (if toplam_duvar_alani_brut g > 0
                   then b / toplam_duvar_alani_brut g * (toplam_pencere_alani g + toplam_kapi_alani g)
                   else 0))"
    by (simp_all add: net_duvar_alani_paneller_icin_def duvar_alani_net_def Let_def max_def)
  have panel:
    "fiyatli_malzeme db Duvar_Paneli = Some (info, f) \<longrightarrow>
        (\<exists>l. map_of (malzeme_ihtiyaclari (duvar_panelleri db g st)) Duvar_Paneli_Toplam = Some l
             \<and> net_miktar l = Sayi (net_duvar_alani_paneller_icin g))"
    by (simp add: duvar_panelleri_def Let_def satir_ekle_def satir_yaz_def dict_set_map_of)
  have room:
    "oda_alanlari g (oda_adi od) = Some a
        \<and> fiyatli_malzeme db (duvar_kaplama_tipi od) = Some (info', f')
        \<and> \<not> sarfiyatsiz_boya db od \<longrightarrow>
        (\<exists>st' l. oda_adimi db g od st = Inr st'
             \<and> map_of (malzeme_ihtiyaclari st')
                  (oda_etiketi (oda_adi od) Duvar (malzeme_adi (malzeme info'))) = Some l
             \<and> net_miktar l = Sayi (duvar_alani_net g (duvar a)))"
    using oda_adimi_duvar_satiri [of g od a db info' f' st] by blast
  have run:
    "list_all (\<lambda>od. 0 \<le> oda_uzunluk od \<and> 0 \<le> oda_genislik od) (oda_listesi e)
        \<and> list_all (\<lambda>p. 0 \<le> pencere_adet p) (pencere_listesi e)
        \<and> list_all (\<lambda>k. 0 \<le> kapi_adet k) (kapi_listesi e)
        \<and> 0 \<le> cati_alani (alan_hesapla e)
        \<and> malzeme_ihtiyacini_hesapla lower sf db e = Inr (m, t) \<longrightarrow>
        list_all (\<lambda>kv. net_negatif_degil (snd kv)) m"
    using nn_sonuc [of e lower sf db m t] by blast
  from formulas panel room run
    net_duvar_alani_paneller_icin_nn [of g] duvar_alani_net_nn [of g b]
  show ?thesis by blast
qed

text \<open>
  A gross wall area of 10 with windows of 6 and doors of 6: both net areas are 0, not
  \<open>-2\<close>, in the wall panel line and in the paint line of the room. In the run on the
  sample catalog with one painted room under a flat roof no net quantity is negative.
\<close>

theorem net_areas_clamped_witness:
  "toplam_duvar_alani_brut (alan_hesapla ev_dar) = 10
   \<and> toplam_pencere_alani (alan_hesapla ev_dar) = 6
   \<and> toplam_kapi_alani (alan_hesapla ev_dar) = 6
   \<and> net_duvar_alani_paneller_icin (alan_hesapla ev_dar) = 0
   \<and> duvar_alani_net (alan_hesapla ev_dar) 10 = 0
   \<and> (\<exists>l. map_of (malzeme_ihtiyaclari
                 (duvar_panelleri ornek_veritabani (alan_hesapla ev_dar) baslangic))
               Duvar_Paneli_Toplam = Some l
          \<and> net_miktar l = Sayi 0)
   \<and> oda_alanlari (alan_hesapla ev_dar) ''Depo'' = Some \<lparr>zemin = 1.5, duvar = 10\<rparr>
   \<and> \<not> sarfiyatsiz_boya ornek_veritabani (hd (oda_listesi ev_dar))
   \<and> (\<exists>st' l. oda_adimi ornek_veritabani (alan_hesapla ev_dar) (hd (oda_listesi ev_dar))
                  baslangic = Inr st'
          \<and> map_of (malzeme_ihtiyaclari st') ''Depo Duvar (Boya)'' = Some l
          \<and> net_miktar l = Sayi 0)
   \<and> malzeme_ihtiyacini_hesapla ascii_lower bicimsiz ornek_veritabani ev_boyali
       = Inr (ornek_satirlar, 13810.925)
   \<and> 0 \<le> cati_alani (alan_hesapla ev_boyali)
   \<and> list_all (\<lambda>kv. net_negatif_degil (snd kv)) ornek_satirlar"
proof -
  have g: "toplam_duvar_alani_brut (alan_hesapla ev_dar) = 10"
    "toplam_pencere_alani (alan_hesapla ev_dar) = 6"
    "toplam_kapi_alani (alan_hesapla ev_dar) = 6"
    "oda_alanlari (alan_hesapla ev_dar) ''Depo'' = Some \<lparr>zemin = 1.5, duvar = 10\<rparr>"
    by (simp_all add: alan_hesapla_def ev_dar_def zemin_alani_def duvar_alani_def)
  have r: "oda_adi (hd (oda_listesi ev_dar)) = ''Depo''"
    "duvar_kaplama_tipi (hd (oda_listesi ev_dar)) = ''Boya''"
    by (simp_all add: ev_dar_def)
  have s: "\<not> sarfiyatsiz_boya ornek_veritabani (hd (oda_listesi ev_dar))"
    by (simp add: sarfiyatsiz_boya_def r ornek_fiyatli ornek_boya_sarfiyat)
  have b: "malzeme_adi (malzeme (ornek_bilgi 4)) = ''Boya''"
    by (simp add: ornek_bilgi_def ornek_malzemeler_def)
  have h: "list_all (\<lambda>od. 0 \<le> oda_uzunluk od \<and> 0 \<le> oda_genislik od) (oda_listesi ev_boyali)"
    "list_all (\<lambda>p. 0 \<le> pencere_adet p) (pencere_listesi ev_boyali)"
    "list_all (\<lambda>k. 0 \<le> kapi_adet k) (kapi_listesi ev_boyali)"
    "0 \<le> cati_alani (alan_hesapla ev_boyali)"
    by (simp_all add: ev_boyali_listeler salon_def ornek_geometri)
  have e: "oda_etiketi ''Depo'' Duvar ''Boya'' = ''Depo Duvar (Boya)''"
    by (simp add: oda_etiketi_def Duvar_def)
  from net_areas_clamped [of "alan_hesapla ev_dar" 10 ornek_veritabani
      "\<lparr>malzeme = hd ornek_malzemeler,
        fiyat = Some (hd (ornek_fiyatlar ''2024-01-01'')), sarfiyat = []\<rparr>"
      "hd (ornek_fiyatlar ''2024-01-01'')" baslangic
      "hd (oda_listesi ev_dar)" "\<lparr>zemin = 1.5, duvar = 10\<rparr>"
      "ornek_bilgi 4" "ornek_fiyatlar ''2024-01-01'' ! 4"
      ev_boyali ascii_lower bicimsiz ornek_satirlar "13810.925"]
    g r s b h e ornek_duvar_paneli ornek_fiyatli(3) ornek_calisma
  show ?thesis by (elim conjE) simp
qed

text \<open>
  The claim as stated fails for the roof: with a pitch of 120 degrees over a footprint
  of 20 the roof area is \<open>-40\<close>, and the roof line of the run on the sample catalog has
  that net quantity.
\<close>

theorem net_areas_clamped_counterexample:
  "cati_alani (alan_hesapla ev_egik) = - 40
   \<and> malzeme_ihtiyacini_hesapla ascii_lower bicimsiz ornek_veritabani ev_egik
       = Inr (egik_satirlar, 2736.425)
   \<and> fst (egik_satirlar ! 1) = Cati_Kaplama_Toplam
   \<and> net_miktar (snd (egik_satirlar ! 1)) = Sayi (- 40)
   \<and> \<not> net_negatif_degil (snd (egik_satirlar ! 1))"
  using egik_calisma
  by (simp add: egik_geometri egik_satirlar_def net_negatif_degil_def)

subsection \<open>Floor covering\<close>

text \<open>
  Claim C7. When the floor covering of a room resolves to a priced material, the floor
  step writes the room's floor line, whose net quantity is the room's floor area. If
  the material is the tile (\<^verbatim>\<open>Fayans\<close>) and the room's application detail for the
  floor carries a positive tile area \<open>t\<close>, the required quantity is
  \<open>(net / t) * (1 + waste)\<close> in pieces (\<^verbatim>\<open>adet\<close>); otherwise (another material, no
  such property, or a property that is not positive) it is \<open>net * (1 + waste)\<close> in the
  material's own unit.
\<close>

theorem floor_quantity:
  assumes "fiyatli_malzeme db (zemin_kaplama_tipi od) = Some (info, f)"
  shows "\<exists>l. map_of (malzeme_ihtiyaclari (zemin_kaplama db od net st))
               (oda_etiketi (oda_adi od) Zemin (malzeme_adi (malzeme info))) = Some l
     \<and> net_miktar l = Sayi net
     \<and> (malzeme_adi (malzeme info) = Fayans
          \<and> ek_ozellikler_getir db (oda_adi od) Zemin ''fayans_boyut_m2'' = Some t \<and> 0 < t
        \<longrightarrow> gerekli_miktar l = Sayi ((net / t) * (1 + varsayilan_fire_orani (malzeme info)))
            \<and> birim_olcu l = ''adet'')
     \<and> (malzeme_adi (malzeme info) \<noteq> Fayans
          \<or> ek_ozellikler_getir db (oda_adi od) Zemin ''fayans_boyut_m2'' = None
          \<or> (ek_ozellikler_getir db (oda_adi od) Zemin ''fayans_boyut_m2'' = Some t \<and> t \<le> 0)
        \<longrightarrow> gerekli_miktar l = Sayi (net * (1 + varsayilan_fire_orani (malzeme info)))
            \<and> birim_olcu l = birim_olcu_tipi (malzeme info))"
  using assms
  by (auto simp add: zemin_kaplama_def Let_def satir_ekle_def satir_yaz_def dict_set_map_of
      split: option.splits)

text \<open>
  A tile of 0.09 on a floor of 9 with waste 0.10 gives 110 pieces; laminate on a floor
  of 20 with waste 0.07 gives 21.4 square metres.
\<close>

theorem floor_quantity_witness:
  "(\<exists>l. map_of (malzeme_ihtiyaclari (zemin_kaplama ornek_veritabani banyo 9 baslangic))
            (oda_etiketi ''Banyo'' Zemin Fayans) = Some l
        \<and> net_miktar l = Sayi 9 \<and> gerekli_miktar l = Sayi 110 \<and> birim_olcu l = ''adet'')
   \<and> (\<exists>l. map_of (malzeme_ihtiyaclari (zemin_kaplama ornek_veritabani salon 20 baslangic))
            (oda_etiketi ''Salon'' Zemin ''Laminat Parke'') = Some l
        \<and> net_miktar l = Sayi 20 \<and> gerekli_miktar l = Sayi 21.4 \<and> birim_olcu l = ''m2'')"
proof -
  have ek: "ek_ozellikler_getir ornek_veritabani ''Banyo'' Zemin ''fayans_boyut_m2'' = Some 0.09"
    by (simp add: ek_ozellikler_getir_def ornek_veritabani_def ornek_detaylar_def Zemin_def)
  have b: "zemin_kaplama_tipi banyo = ''Fayans''" "oda_adi banyo = ''Banyo''"
    "malzeme_adi (malzeme (ornek_bilgi 2)) = Fayans"
    "varsayilan_fire_orani (malzeme (ornek_bilgi 2)) = 0.10"
    by (simp_all add: banyo_def ornek_bilgi_def ornek_malzemeler_def Fayans_def)
  have s: "zemin_kaplama_tipi salon = ''Laminat Parke''" "oda_adi salon = ''Salon''"
    "malzeme_adi (malzeme (ornek_bilgi 3)) = ''Laminat Parke''"
    "varsayilan_fire_orani (malzeme (ornek_bilgi 3)) = 0.07"
    "birim_olcu_tipi (malzeme (ornek_bilgi 3)) = ''m2''"
    by (simp_all add: salon_def ornek_bilgi_def ornek_malzemeler_def)
  from floor_quantity [of ornek_veritabani banyo "ornek_bilgi 2"
      "ornek_fiyatlar ''2024-01-01'' ! 2" 9 baslangic "0.09"] ornek_fiyatli(1) b ek
  have A: "\<exists>l. map_of (malzeme_ihtiyaclari (zemin_kaplama ornek_veritabani banyo 9 baslangic))
            (oda_etiketi ''Banyo'' Zemin Fayans) = Some l
        \<and> net_miktar l = Sayi 9 \<and> gerekli_miktar l = Sayi 110 \<and> birim_olcu l = ''adet''"
    by auto
  from floor_quantity [of ornek_veritabani salon "ornek_bilgi 3"
      "ornek_fiyatlar ''2024-01-01'' ! 3" 20 baslangic 0] ornek_fiyatli(2) s
  have B: "\<exists>l. map_of (malzeme_ihtiyaclari (zemin_kaplama ornek_veritabani salon 20 baslangic))
            (oda_etiketi ''Salon'' Zemin ''Laminat Parke'') = Some l
        \<and> net_miktar l = Sayi 20 \<and> gerekli_miktar l = Sayi 21.4 \<and> birim_olcu l = ''m2''"
    by (auto simp: Fayans_def)
  from A B show ?thesis by blast
qed


subsection \<open>Paint\<close>

text \<open>
  Claim C6, as the code has it. When the wall covering of a room resolves to the priced
  paint (\<^verbatim>\<open>Boya\<close>) with a consumption rate for walls, the wall step writes the room's
  wall line with required quantity \<open>net * rate * coats * (1 + waste)\<close>, where the rate
  is the first rate for walls, the unit is the fixed text \<^verbatim>\<open>litre\<close>, and the coat
  count is the property \<^verbatim>\<open>kat_sayisi\<close> of the room's application detail for walls,
  whatever its value, and 1 only when the property is absent.
\<close>

theorem paint_quantity:
  assumes "fiyatli_malzeme db (duvar_kaplama_tipi od) = Some (info, f)"
      and "malzeme_adi (malzeme info) = Boya"
      and "filter (\<lambda>s. uygulama_turu s = Duvar) (sarfiyat info) = s # ss"
  shows "\<exists>st' l. duvar_kaplama db od net st = Inr st'
     \<and> map_of (malzeme_ihtiyaclari st') (oda_etiketi (oda_adi od) Duvar Boya) = Some l
     \<and> net_miktar l = Sayi net
     \<and> gerekli_miktar l =
         Sayi (net * sarfiyat_degeri s
                 * (case ek_ozellikler_getir db (oda_adi od) Duvar ''kat_sayisi'' of
                      None \<Rightarrow> 1 | Some k \<Rightarrow> k)
                 * (1 + varsayilan_fire_orani (malzeme info)))
     \<and> birim_olcu l = ''litre''"
  using assms
  by (simp add: duvar_kaplama_def Let_def satir_ekle_def satir_yaz_def toplama_ekle_def
      dict_set_map_of)

text \<open>A rate of 0.15, two coats, a net area of 20 and waste 0.05 give 6.3 litres.\<close>

theorem paint_quantity_witness:
  "\<exists>st' l. duvar_kaplama ornek_veritabani salon 20 baslangic = Inr st'
     \<and> map_of (malzeme_ihtiyaclari st') (oda_etiketi ''Salon'' Duvar Boya) = Some l
     \<and> net_miktar l = Sayi 20 \<and> gerekli_miktar l = Sayi 6.3 \<and> birim_olcu l = ''litre''"
proof -
  have ek: "ek_ozellikler_getir ornek_veritabani ''Salon'' Duvar ''kat_sayisi'' = Some 2"
    by (simp add: ek_ozellikler_getir_def ornek_veritabani_def ornek_detaylar_def Duvar_def)
  have s: "duvar_kaplama_tipi salon = ''Boya''" "oda_adi salon = ''Salon''"
    "malzeme_adi (malzeme (ornek_bilgi 4)) = Boya"
    "varsayilan_fire_orani (malzeme (ornek_bilgi 4)) = 0.05"
    "sarfiyat_degeri (hd ornek_sarfiyatlar) = 0.15"
    by (simp_all add: salon_def ornek_bilgi_def ornek_malzemeler_def ornek_sarfiyatlar_def Boya_def)
  from paint_quantity [of ornek_veritabani salon "ornek_bilgi 4"
      "ornek_fiyatlar ''2024-01-01'' ! 4" "hd ornek_sarfiyatlar" "[]" 20 baslangic]
    ornek_fiyatli(3) ornek_boya_sarfiyat s ek
  show ?thesis by simp
qed

text \<open>
  The claim as stated fails where the coat count is present and not positive: with a
  coat count of 0 the required quantity is 0, not the quantity for one coat. The unit
  of the line is \<^verbatim>\<open>litre\<close> although the rate of that catalog is per kilogram.
\<close>

theorem paint_quantity_counterexample:
  "duvar_kaplama sifir_kat_veritabani salon 20 baslangic =
     Inr \<lparr>malzeme_ihtiyaclari =
            [(oda_etiketi ''Salon'' Duvar Boya,
              \<lparr>net_miktar = Sayi 20, gerekli_miktar = Sayi 0, birim_olcu = ''litre'',
               birim_fiyat = 50, maliyet = 0\<rparr>)],
          toplam_maliyet_temp = 0, maliyet_yerel = Some 0\<rparr>
   \<and> Sayi 0 \<noteq> Sayi (20 * 0.15 * 1 * (1 + 0.05))
   \<and> map sarfiyat_birimi (Sarfiyatlar sifir_kat_veritabani) = [''kg/m2'']"
  by (simp add: duvar_kaplama_def fiyatli_malzeme_def malzeme_bilgisi_getir_def
      sifir_kat_veritabani_def ornek_veritabani_def ornek_malzemeler_def ornek_fiyatlar_def
      ornek_sarfiyatlar_def salon_def Boya_def Duvar_def ek_ozellikler_getir_def Let_def
      satir_ekle_def satir_yaz_def toplama_ekle_def baslangic_def oda_etiketi_def)

subsection \<open>Rooms of the same name\<close>



subsection \<open>Cost of a line\<close>

text \<open>
  Claim C4, as the code has it. In the result of a run, every line other than the
  overhead line carries a numeric required quantity and its cost is that quantity times
  its unit price. The overhead line carries the text \<^verbatim>\<open>N/A\<close> as net and as required
  quantity and the unit price 1, so its cost is no product of the two.
\<close>

theorem line_cost:
  assumes "malzeme_ihtiyacini_hesapla lower sf db e = Inr (m, t)"
      and "(k, l) \<in> set m"
  shows "(k \<noteq> Tesisat \<longrightarrow> (\<exists>q. gerekli_miktar l = Sayi q \<and> maliyet l = q * birim_fiyat l))
       \<and> (k = Tesisat \<longrightarrow> gerekli_miktar l = NA \<and> net_miktar l = NA \<and> birim_fiyat l = 1)"
proof -
  from assms(1) obtain st where st: "ara_durum lower sf db e = Inr st"
    and m: "m = malzeme_ihtiyaclari (tesisat st)"
    by (auto simp add: malzeme_ihtiyacini_hesapla_def Let_def split: sum.splits)
  from st have d: "duzenli st" by (rule duzenli_ara_durum)
  let ?v = "\<lparr>net_miktar = NA, gerekli_miktar = NA, birim_olcu = ''TL'', birim_fiyat = 1,
             maliyet = toplam_maliyet_temp st * 0.15\<rparr>"
  from assms(2) m have "(k, l) \<in> set (dict_set Tesisat ?v (malzeme_ihtiyaclari st))"
    by (simp add: tesisat_def Let_def)
  with d have "(k = Tesisat \<and> l = ?v) \<or> (k \<noteq> Tesisat \<and> (k, l) \<in> set (malzeme_ihtiyaclari st))"
    by (auto dest!: dict_set_mem simp add: duzenli_def)
  then show ?thesis
  proof
    assume "k = Tesisat \<and> l = ?v"
    then show ?thesis by simp
  next
    assume a: "k \<noteq> Tesisat \<and> (k, l) \<in> set (malzeme_ihtiyaclari st)"
    with d have "carpim l" by (auto simp add: duzenli_def list_all_iff)
    with a show ?thesis by (auto simp add: carpim_def split: miktar.splits)
  qed
qed


text \<open>
  In the run on the sample catalog with one painted room, the paint line costs
  \<open>14.175 * 50\<close> and the overhead line has no numeric quantity.
\<close>

theorem line_cost_witness:
  "malzeme_ihtiyacini_hesapla ascii_lower bicimsiz ornek_veritabani ev_boyali
     = Inr (ornek_satirlar, 13810.925)
   \<and> ornek_satirlar ! 3 \<in> set ornek_satirlar
   \<and> fst (ornek_satirlar ! 3) \<noteq> Tesisat
   \<and> (\<exists>q. gerekli_miktar (snd (ornek_satirlar ! 3)) = Sayi q
          \<and> maliyet (snd (ornek_satirlar ! 3)) = q * birim_fiyat (snd (ornek_satirlar ! 3)))
   \<and> ornek_satirlar ! 4 \<in> set ornek_satirlar
   \<and> fst (ornek_satirlar ! 4) = Tesisat
   \<and> gerekli_miktar (snd (ornek_satirlar ! 4)) = NA"
proof -
  have m3: "(fst (ornek_satirlar ! 3), snd (ornek_satirlar ! 3)) \<in> set ornek_satirlar"
    and m4: "(fst (ornek_satirlar ! 4), snd (ornek_satirlar ! 4)) \<in> set ornek_satirlar"
    by (simp_all add: ornek_satirlar_def)
  have k: "fst (ornek_satirlar ! 3) \<noteq> Tesisat" "fst (ornek_satirlar ! 4) = Tesisat"
    "ornek_satirlar ! 3 \<in> set ornek_satirlar" "ornek_satirlar ! 4 \<in> set ornek_satirlar"
    by (simp_all add: ornek_satirlar_def Tesisat_def)
  from line_cost [OF ornek_calisma m3] line_cost [OF ornek_calisma m4] k ornek_calisma
  show ?thesis by simp
qed

text \<open>
  The claim as stated fails at the overhead line, the only line of the run on an empty
  house and an empty catalog: its required quantity is not a number.
\<close>

theorem line_cost_counterexample:
  "malzeme_ihtiyacini_hesapla ascii_lower bicimsiz bos_veritabani bos_ev
     = Inr ([(Tesisat, tesisat_satiri 0)], 0)
   \<and> gerekli_miktar (tesisat_satiri 0) = NA
   \<and> \<not> carpim (tesisat_satiri 0)"
  using bos_ev_calisma [of bos_ev bos_veritabani ascii_lower bicimsiz]
  by (simp add: bos_ev_def bos_fiyatli tesisat_satiri_def carpim_def)

subsection \<open>Absent materials\<close>

text \<open>
  Claim C3, as the code has it. When no room's wall covering resolves to a priced paint
  that has no consumption rate for walls, the run raises no exception and returns the
  dictionary of lines and the total; the caller's list of messages stays empty, so no
  warning is recorded. A material counts as not resolved exactly when the lookup finds
  no material or no current price for it, and then the step of the wall panels, of the
  roof panels, of a room's floor, of a room's wall, of a window and of a door leaves the
  lines and the running total as they were. A property bag that does not parse is the
  empty dictionary. A house without rooms, windows and doors, with the wall and roof
  panel materials not resolved, gives the overhead line alone, with cost 0 and total 0.
\<close>

theorem graceful_absence:
  assumes "list_all (\<lambda>od. \<not> sarfiyatsiz_boya db od) (oda_listesi e)"
  shows "(\<exists>m t. malzeme_ihtiyacini_hesapla lower sf db e = Inr (m, t)
            \<and> calculate_cost lower sf db e = Sonuc m t [])
   \<and> (fiyatli_malzeme db ad = None \<longleftrightarrow>
        (case malzeme_bilgisi_getir db ad of None \<Rightarrow> True | Some info \<Rightarrow> fiyat info = None))
   \<and> (fiyatli_malzeme db Duvar_Paneli = None \<longrightarrow> duvar_panelleri db g st = st)
   \<and> (fiyatli_malzeme db Cati_Paneli = None \<longrightarrow> cati_kaplama db g st = st)
   \<and> (fiyatli_malzeme db (zemin_kaplama_tipi od) = None \<longrightarrow> zemin_kaplama db od a st = st)
   \<and> (fiyatli_malzeme db (duvar_kaplama_tipi od) = None \<longrightarrow> duvar_kaplama db od a st = Inr st)
   \<and> (fiyatli_malzeme db PVC_Pencere = None \<longrightarrow> pencere_adimi sf db i p st = st)
   \<and> (fiyatli_malzeme db (kategori_kapi lower k) = None \<longrightarrow> kapi_adimi lower sf db i k st = st)
   \<and> (filter (\<lambda>d. oda_tipi d = oda_adi od \<and> uygulama_alani d = yuzey) (UygulamaDetaylari db) = d # ds
        \<and> ek_ozellikler d = Bozuk
      \<longrightarrow> ek_ozellikler_getir db (oda_adi od) yuzey = Map.empty)
   \<and> (oda_listesi e = [] \<and> pencere_listesi e = [] \<and> kapi_listesi e = []
        \<and> fiyatli_malzeme db Duvar_Paneli = None \<and> fiyatli_malzeme db Cati_Paneli = None
      \<longrightarrow> malzeme_ihtiyacini_hesapla lower sf db e = Inr ([(Tesisat, tesisat_satiri 0)], 0))"
proof -
  from hesapla_Inr [OF assms] obtain m t where
    r: "malzeme_ihtiyacini_hesapla lower sf db e = Inr (m, t)"
    by blast
  then have c: "calculate_cost lower sf db e = Sonuc m t []"
    by (simp add: calculate_cost_def)
  have steps:
    "fiyatli_malzeme db Duvar_Paneli = None \<longrightarrow> duvar_panelleri db g st = st"
    "fiyatli_malzeme db Cati_Paneli = None \<longrightarrow> cati_kaplama db g st = st"
    "fiyatli_malzeme db (zemin_kaplama_tipi od) = None \<longrightarrow> zemin_kaplama db od a st = st"
    "fiyatli_malzeme db (duvar_kaplama_tipi od) = None \<longrightarrow> duvar_kaplama db od a st = Inr st"
    "fiyatli_malzeme db PVC_Pencere = None \<longrightarrow> pencere_adimi sf db i p st = st"
    "fiyatli_malzeme db (kategori_kapi lower k) = None \<longrightarrow> kapi_adimi lower sf db i k st = st"
    by (simp_all add: duvar_panelleri_def cati_kaplama_def zemin_kaplama_def duvar_kaplama_def
        pencere_adimi_def kapi_adimi_def)
  have bag:
    "filter (\<lambda>d. oda_tipi d = oda_adi od \<and> uygulama_alani d = yuzey) (UygulamaDetaylari db) = d # ds
        \<and> ek_ozellikler d = Bozuk
      \<longrightarrow> ek_ozellikler_getir db (oda_adi od) yuzey = Map.empty"
    by (simp add: ek_ozellikler_getir_def)
  have empty:
    "oda_listesi e = [] \<and> pencere_listesi e = [] \<and> kapi_listesi e = []
        \<and> fiyatli_malzeme db Duvar_Paneli = None \<and> fiyatli_malzeme db Cati_Paneli = None
      \<longrightarrow> malzeme_ihtiyacini_hesapla lower sf db e = Inr ([(Tesisat, tesisat_satiri 0)], 0)"
    by (simp add: bos_ev_calisma)
  from r c steps bag empty fiyatli_malzeme_None [of db ad] show ?thesis
    by blast
qed

text \<open>
  On the empty catalog, every step of a house with one room, one window and one door
  leaves the state untouched and the run returns; a catalog whose application detail
  for the bathroom floor does not parse yields the empty dictionary.
\<close>

theorem graceful_absence_witness:
  "list_all (\<lambda>od. \<not> sarfiyatsiz_boya bos_veritabani od) (oda_listesi ev_dar)
   \<and> (\<exists>m t. malzeme_ihtiyacini_hesapla ascii_lower bicimsiz bos_veritabani ev_dar = Inr (m, t)
          \<and> calculate_cost ascii_lower bicimsiz bos_veritabani ev_dar = Sonuc m t [])
   \<and> fiyatli_malzeme bos_veritabani Duvar_Paneli = None
   \<and> duvar_panelleri bos_veritabani (alan_hesapla ev_dar) baslangic = baslangic
   \<and> cati_kaplama bos_veritabani (alan_hesapla ev_dar) baslangic = baslangic
   \<and> zemin_kaplama bos_veritabani (hd (oda_listesi ev_dar)) 1.5 baslangic = baslangic
   \<and> duvar_kaplama bos_veritabani (hd (oda_listesi ev_dar)) 1.5 baslangic = Inr baslangic
   \<and> pencere_adimi bicimsiz bos_veritabani 0 (hd (pencere_listesi ev_dar)) baslangic = baslangic
   \<and> kapi_adimi ascii_lower bicimsiz bos_veritabani 0 (hd (kapi_listesi ev_dar)) baslangic
       = baslangic
   \<and> ek_ozellikler_getir bozuk_veritabani (oda_adi banyo) Zemin = Map.empty
   \<and> malzeme_ihtiyacini_hesapla ascii_lower bicimsiz bos_veritabani bos_ev
       = Inr ([(Tesisat, tesisat_satiri 0)], 0)"
proof -
  have h1: "list_all (\<lambda>od. \<not> sarfiyatsiz_boya bos_veritabani od) (oda_listesi ev_dar)"
    by (simp add: list_all_iff sarfiyatsiz_boya_def bos_fiyatli)
  have h2: "list_all (\<lambda>od. \<not> sarfiyatsiz_boya bozuk_veritabani od) (oda_listesi bos_ev)"
    and h3: "list_all (\<lambda>od. \<not> sarfiyatsiz_boya bos_veritabani od) (oda_listesi bos_ev)"
    and e: "oda_listesi bos_ev = []" "pencere_listesi bos_ev = []" "kapi_listesi bos_ev = []"
    by (simp_all add: bos_ev_def)
  have bz: "filter (\<lambda>d. oda_tipi d = oda_adi banyo \<and> uygulama_alani d = Zemin)
              (UygulamaDetaylari bozuk_veritabani)
            = hd (UygulamaDetaylari bozuk_veritabani) # []"
    "ek_ozellikler (hd (UygulamaDetaylari bozuk_veritabani)) = Bozuk"
    by (simp_all add: bozuk_veritabani_def banyo_def Zemin_def)
  note w1 = graceful_absence [OF h1, where lower = ascii_lower and sf = bicimsiz
      and g = "alan_hesapla ev_dar" and st = baslangic and od = "hd (oda_listesi ev_dar)"
      and a = "1.5" and i = 0 and p = "hd (pencere_listesi ev_dar)"
      and k = "hd (kapi_listesi ev_dar)"]
  note w2 = graceful_absence [OF h2, where od = banyo and yuzey = Zemin
      and d = "hd (UygulamaDetaylari bozuk_veritabani)" and ds = "[]"]
  note w3 = graceful_absence [OF h3, where lower = ascii_lower and sf = bicimsiz]
  from w1 have A:
    "\<exists>m t. malzeme_ihtiyacini_hesapla ascii_lower bicimsiz bos_veritabani ev_dar = Inr (m, t)
          \<and> calculate_cost ascii_lower bicimsiz bos_veritabani ev_dar = Sonuc m t []"
    "duvar_panelleri bos_veritabani (alan_hesapla ev_dar) baslangic = baslangic"
    "cati_kaplama bos_veritabani (alan_hesapla ev_dar) baslangic = baslangic"
    "zemin_kaplama bos_veritabani (hd (oda_listesi ev_dar)) 1.5 baslangic = baslangic"
    "duvar_kaplama bos_veritabani (hd (oda_listesi ev_dar)) 1.5 baslangic = Inr baslangic"
    "pencere_adimi bicimsiz bos_veritabani 0 (hd (pencere_listesi ev_dar)) baslangic = baslangic"
    "kapi_adimi ascii_lower bicimsiz bos_veritabani 0 (hd (kapi_listesi ev_dar)) baslangic
       = baslangic"
    by (simp_all add: bos_fiyatli)
  from w2 bz have B: "ek_ozellikler_getir bozuk_veritabani (oda_adi banyo) Zemin = Map.empty"
    by blast
  from w3 e have C: "malzeme_ihtiyacini_hesapla ascii_lower bicimsiz bos_veritabani bos_ev
       = Inr ([(Tesisat, tesisat_satiri 0)], 0)"
    by (simp add: bos_fiyatli)
  from h1 A B C bos_fiyatli [of Duvar_Paneli] show ?thesis
    by blast
qed

text \<open>
  The claim as stated fails: on the empty catalog the six lines of that house are left
  out and the list of messages of the answer is empty.
\<close>

theorem graceful_absence_counterexample:
  "calculate_cost ascii_lower bicimsiz bos_veritabani ev_dar
     = Sonuc [(Tesisat, tesisat_satiri 0)] 0 []
   \<and> fiyatli_malzeme bos_veritabani (zemin_kaplama_tipi (hd (oda_listesi ev_dar))) = None
   \<and> fiyatli_malzeme bos_veritabani (duvar_kaplama_tipi (hd (oda_listesi ev_dar))) = None"
  using bos_katalog_calisma
  by (simp add: calculate_cost_def bos_fiyatli)

text \<open>
  The case left out above: a priced paint without a rate for walls, in a catalog that
  resolves nothing else, makes the addition after the wall branch read the local
  variable \<^verbatim>\<open>maliyet\<close> before any branch has assigned it.
\<close>

lemma sarfiyatsiz_boya_hatasi:
  "sarfiyatsiz_boya oransiz_veritabani salon
   \<and> calculate_cost ascii_lower bicimsiz oransiz_veritabani ev_boyali
       = Basarisiz [Danger UnboundLocalError]"
proof -
  have "fiyatli_malzeme oransiz_veritabani (duvar_kaplama_tipi salon)
       = Some (\<lparr>malzeme = ornek_malzemeler ! 4,
                 fiyat = Some (ornek_fiyatlar ''2024-01-01'' ! 4), sarfiyat = []\<rparr>,
               ornek_fiyatlar ''2024-01-01'' ! 4)"
    by (simp add: fiyatli_malzeme_def malzeme_bilgisi_getir_def oransiz_veritabani_def
        ornek_malzemeler_def ornek_fiyatlar_def salon_def)
  then have "sarfiyatsiz_boya oransiz_veritabani salon"
    by (simp add: sarfiyatsiz_boya_def ornek_malzemeler_def Boya_def)
  then show ?thesis
    by (simp add: calculate_cost_def oransiz_calisma)
qed

subsection \<open>Grand total and overhead\<close>

text \<open>
  Claim C1 says that the grand total is the sum of the costs of the lines of the result,
  each counted once. The run on the sample catalog with one painted room returns the
  total 13810.925 while its lines sum to 13102.175; the difference is the cost of the
  paint line, which the wall branch adds to the running total twice.
\<close>

theorem total_counts_paint_twice:
  "malzeme_ihtiyacini_hesapla ascii_lower bicimsiz ornek_veritabani ev_boyali
     = Inr (ornek_satirlar, 13810.925)
   \<and> satir_maliyetleri ornek_satirlar = 13102.175
   \<and> 13810.925 - satir_maliyetleri ornek_satirlar = maliyet (snd (ornek_satirlar ! 3))"
  using ornek_calisma
  by (simp add: satir_maliyetleri_def ornek_satirlar_def tesisat_satiri_def)

text \<open>
  Claim C2 says that the cost of the overhead line is 0.15 times the sum of the costs
  of the other lines. In the same run the other lines sum to 11300.75, of which 0.15
  is 1695.1125, while the overhead line costs 1801.425: 0.15 times the running total,
  which holds the paint cost twice.
\<close>

theorem overhead_counts_paint_twice:
  "(case malzeme_ihtiyacini_hesapla ascii_lower bicimsiz ornek_veritabani ev_boyali of
      Inl err \<Rightarrow> False
    | Inr (m, t) \<Rightarrow>
        map_of m Tesisat = Some (tesisat_satiri 1801.425)
        \<and> diger_maliyetler m = 11300.75
        \<and> 0.15 * diger_maliyetler m = 1695.1125)"
  using ornek_calisma
  by (simp add: diger_maliyetler_def satir_maliyetleri_def ornek_satirlar_def tesisat_satiri_def
      Duvar_Paneli_Toplam_def Cati_Kaplama_Toplam_def Tesisat_def)


end
